theory Spec2Isabelle
  imports Main
begin

section \<open>Data model\<close>

text \<open>
  The enums and unions of the types module. Row identifiers are UUIDs that the database
  generates; they are opaque to the program and are numbered here, the next free one being
  part of the database state.
\<close>

type_synonym uuid = nat

datatype TaskStatus = TODO | IN_PROGRESS | COMPLETED

datatype Priority = LOW | MEDIUM | HIGH

datatype ProjectRole = Owner | Member | Viewer

datatype InvitationStatus = pending | accepted | declined

text \<open>
  The interface \<open>Task\<close> (its comments are loaded separately and stay empty here). Its
  \<open>id\<close> is a string: the UUID of the row for a stored task, a label for a suggested one.
\<close>

record 'i Task =
  task_id :: 'i
  task_title :: string
  task_description :: "string option"
  task_status :: TaskStatus
  task_assigneeId :: "uuid option"
  task_dueDate :: "string option"
  task_priority :: Priority
  task_milestoneId :: "uuid option"

text \<open>
  The argument of \<open>createTask\<close>, \<open>Omit<Task, 'id' | 'comments'>\<close>. The fields that the
  table gives a default are optional here: a key that is \<open>undefined\<close> is not sent, and the
  column default applies.
\<close>

record TaskData =
  td_title :: string
  td_description :: "string option"
  td_status :: "TaskStatus option"
  td_priority :: "Priority option"
  td_assigneeId :: "uuid option"
  td_dueDate :: "string option"
  td_milestoneId :: "uuid option"

text \<open>The argument of \<open>updateTask\<close>, \<open>Partial<Task>\<close>: \<open>None\<close> is \<open>undefined\<close>.\<close>

record TaskUpdates =
  up_title :: "string option"
  up_description :: "string option"
  up_status :: "TaskStatus option"
  up_priority :: "Priority option"
  up_assigneeId :: "uuid option"
  up_dueDate :: "string option"
  up_milestoneId :: "uuid option"

text \<open>The interface \<open>ProjectInvitation\<close> (without its creation time).\<close>

record ProjectInvitation =
  inv_id :: uuid
  inv_projectId :: uuid
  inv_invitedUserId :: uuid
  inv_invitedBy :: uuid
  inv_role :: ProjectRole
  inv_status :: InvitationStatus

subsection \<open>The tables\<close>

text \<open>
  The rows of the tables \<open>projects\<close>, \<open>project_members\<close>, \<open>tasks\<close> and
  \<open>project_invitations\<close> of the migrations, without their \<open>created_at\<close> and
  \<open>updated_at\<close> columns. A table is the list of its rows in insertion order.
\<close>

record project_row =
  p_id :: uuid
  p_name :: string
  p_progress :: int

record member_row =
  m_id :: uuid
  m_project_id :: uuid
  m_user_id :: uuid
  m_role :: ProjectRole

record task_row =
  t_id :: uuid
  t_project_id :: uuid
  t_milestone_id :: "uuid option"
  t_title :: string
  t_description :: "string option"
  t_status :: TaskStatus
  t_priority :: Priority
  t_assignee_id :: "uuid option"
  t_due_date :: "string option"
  t_position :: int

record invitation_row =
  i_id :: uuid
  i_project_id :: uuid
  i_invited_user_id :: uuid
  i_invited_by :: uuid
  i_role :: ProjectRole
  i_status :: InvitationStatus

record database =
  projects :: "project_row list"
  project_members :: "member_row list"
  tasks :: "task_row list"
  project_invitations :: "invitation_row list"
  next_uuid :: uuid

subsection \<open>The hosted backend\<close>

text \<open>
  Every awaited query of the data-access layer is one remote call. The backend serves it,
  or refuses it (the call resolves to \<open>{ data: null, error }\<close> and changes nothing), or
  the awaited promise rejects. Which of the three happens to the \<open>n\<close>-th call of an
  operation is the environment's choice. What the migrations declare for the columns that
  the operations write is computed by the model and reported like a refusal: the unique
  and check constraints of the four tables above, the range of an \<open>INTEGER\<close> and the
  reading of a \<open>DATE\<close>. Foreign keys, access policies and transport failures are part of
  the environment's choice.
\<close>

datatype reply = Served | Refused | Raised

type_synonym backend = "nat \<Rightarrow> reply"

datatype error = PostgrestError | Thrown | AppError string

definition later :: "nat \<Rightarrow> backend \<Rightarrow> backend" where
  "later n be = (\<lambda>i. be (i + n))"

definition served :: backend where
  \<comment> \<open>the backend that serves every call\<close>
  "served n = Served"

definition INTEGER_ok :: "int \<Rightarrow> bool" where
  \<comment> \<open>the values of a column of type \<open>INTEGER\<close>\<close>
  "INTEGER_ok v = (- 2147483648 \<le> v \<and> v \<le> 2147483647)"

text \<open>
  A column of type \<open>DATE\<close> is written from a text. How the database reads a text as a
  date is an argument \<open>date_in\<close> of the operations that write one: \<open>None\<close> when the
  text is no date and the statement is rejected, otherwise the date as the database gives
  it back. \<open>read_due_date\<close> is \<open>None\<close> for a rejected text, \<open>Some None\<close> when no date
  is given.
\<close>

definition read_due_date :: "(string \<Rightarrow> string option) \<Rightarrow> string option \<Rightarrow> string option option" where
  "read_due_date date_in d =
     (case d of
        None \<Rightarrow> Some None
      | Some text \<Rightarrow> (case date_in text of None \<Rightarrow> None | Some date \<Rightarrow> Some (Some date)))"

definition single :: "'a list \<Rightarrow> 'a option" where
  \<comment> \<open>\<open>.single()\<close>: the row when exactly one matches, otherwise no data and an error\<close>
  "single rows = (case rows of [r] \<Rightarrow> Some r | _ \<Rightarrow> None)"

section \<open>Progress\<close>

subsection \<open>Number arithmetic\<close>

text \<open>
  \<open>Math.round((completed / tasks.length) * 100)\<close> is computed on IEEE 754 doubles. A
  double is written as a fraction of integers with a positive denominator;
  \<open>to_double\<close> rounds a non-negative fraction to the nearest double, ties to even, for
  values in the normal range (every quotient of two array lengths is).
\<close>

type_synonym frac = "int \<times> int"

fun bits :: "nat \<Rightarrow> nat" where
  "bits n = (if n = 0 then 0 else Suc (bits (n div 2)))"

declare bits.simps [simp del]

definition rne :: "int \<Rightarrow> int \<Rightarrow> int" where
  \<comment> \<open>\<open>n / d\<close> rounded to the nearest integer, ties to the even one\<close>
  "rne n d = (let q = n div d; r = n mod d in
     if 2 * r < d then q else if d < 2 * r then q + 1
     else if even q then q else q + 1)"

definition scaled :: "int \<Rightarrow> int \<Rightarrow> int \<Rightarrow> frac" where
  \<comment> \<open>\<open>a / (b * 2 ^ k)\<close>\<close>
  "scaled a b k = (if 0 \<le> k then (a, b * 2 ^ nat k) else (a * 2 ^ nat (- k), b))"

definition to_double :: "frac \<Rightarrow> frac" where
  "to_double x = (case x of (a, b) \<Rightarrow>
     if a = 0 then (0, 1)
     else
       let k0 = int (bits (nat a)) - int (bits (nat b)) - 53;
           k = (case scaled a b k0 of (n0, d0) \<Rightarrow> if d0 * 2 ^ 53 \<le> n0 then k0 + 1 else k0);
           m = (case scaled a b k of (n, d) \<Rightarrow> rne n d)
       in if 0 \<le> k then (m * 2 ^ nat k, 1) else (m, 2 ^ nat (- k)))"

definition js_divide :: "int \<Rightarrow> int \<Rightarrow> frac" where
  "js_divide a b = to_double (a, b)"

definition js_times :: "frac \<Rightarrow> int \<Rightarrow> frac" where
  "js_times x c = (case x of (a, b) \<Rightarrow> to_double (a * c, b))"

definition Math_round :: "frac \<Rightarrow> int" where
  \<comment> \<open>the nearest integer, a tie going up\<close>
  "Math_round x = (case x of (a, b) \<Rightarrow> (2 * a + b) div (2 * b))"

definition round_half_up :: "int \<Rightarrow> int \<Rightarrow> int" where
  \<comment> \<open>the spec's \<open>round(a / b)\<close> in exact arithmetic, for \<open>b > 0\<close>\<close>
  "round_half_up a b = (2 * a + b) div (2 * b)"

subsection \<open>updateProjectProgress\<close>

definition set_progress :: "uuid \<Rightarrow> int \<Rightarrow> project_row list \<Rightarrow> project_row list" where
  \<comment> \<open>\<open>from('projects').update({ progress }).eq('id', projectId)\<close>\<close>
  "set_progress projectId v rows =
     map (\<lambda>p. if p_id p = projectId then p\<lparr>p_progress := v\<rparr> else p) rows"

definition update_progress :: "reply \<Rightarrow> database \<Rightarrow> uuid \<Rightarrow> int \<Rightarrow> database" where
  \<comment> \<open>the result of the update is not looked at; the column has
      \<open>CHECK (progress >= 0 AND progress <= 100)\<close>\<close>
  "update_progress r db projectId v =
     (if r = Served \<and> 0 \<le> v \<and> v \<le> 100
      then db\<lparr>projects := set_progress projectId v (projects db)\<rparr>
      else db)"

text \<open>
  The function reads no \<open>error\<close>: a refused query leaves \<open>tasks\<close> \<open>null\<close>, which is
  treated like a project without tasks, and a refused update passes unnoticed. Its
  \<open>try\<close> catches a rejected promise and only logs it, so it never throws.
\<close>

definition updateProjectProgress :: "backend \<Rightarrow> database \<Rightarrow> uuid \<Rightarrow> database" where
  "updateProjectProgress be db projectId =
     (case be 0 of
        Raised \<Rightarrow> db
      | r0 \<Rightarrow>
          (case (if r0 = Served
                 then Some (map t_status [t \<leftarrow> tasks db. t_project_id t = projectId])
                 else None) of
             None \<Rightarrow> update_progress (be 1) db projectId 0
           | Some statuses \<Rightarrow>
               if length statuses = 0
               then update_progress (be 1) db projectId 0
               else
                 let completed = length [s \<leftarrow> statuses. s = COMPLETED];
                     progress = Math_round
                       (js_times (js_divide (int completed) (int (length statuses))) 100)
                 in update_progress (be 1) db projectId progress))"

section \<open>Tasks\<close>

definition dbToTask :: "task_row \<Rightarrow> uuid Task" where
  "dbToTask row =
     \<lparr> task_id = t_id row,
       task_title = t_title row,
       task_description = t_description row,
       task_status = t_status row,
       task_assigneeId = t_assignee_id row,
       task_dueDate = t_due_date row,
       task_priority = t_priority row,
       task_milestoneId = t_milestone_id row \<rparr>"

definition or_zero :: "int \<Rightarrow> int" where
  \<comment> \<open>\<open>p || 0\<close> on a number\<close>
  "or_zero p = (if p = 0 then 0 else p)"

definition max_position_row :: "database \<Rightarrow> uuid \<Rightarrow> int option" where
  \<comment> \<open>\<open>select('position').eq('project_id', projectId)
      .order('position', { ascending: false }).limit(1).single()\<close>\<close>
  "max_position_row db projectId =
     single (take 1 (rev (sort (map t_position [t \<leftarrow> tasks db. t_project_id t = projectId]))))"

definition new_task_row ::
  "uuid \<Rightarrow> uuid \<Rightarrow> TaskData \<Rightarrow> int \<Rightarrow> string option \<Rightarrow> task_row" where
  \<comment> \<open>the inserted row; \<open>status\<close> has \<open>DEFAULT 'Todo'\<close> and \<open>priority\<close> has
      \<open>DEFAULT 'Medium'\<close>; \<open>due\<close> is the due date as the database read it\<close>
  "new_task_row fresh projectId taskData position due =
     \<lparr> t_id = fresh,
       t_project_id = projectId,
       t_milestone_id = td_milestoneId taskData,
       t_title = td_title taskData,
       t_description = td_description taskData,
       t_status = (case td_status taskData of None \<Rightarrow> TODO | Some s \<Rightarrow> s),
       t_priority = (case td_priority taskData of None \<Rightarrow> MEDIUM | Some p \<Rightarrow> p),
       t_assignee_id = td_assigneeId taskData,
       t_due_date = due,
       t_position = position \<rparr>"

text \<open>
  \<open>createTask\<close> reads only the \<open>data\<close> of the position query: \<open>.single()\<close> reports an
  error for a project without tasks, and a refused query looks the same. The insert is
  rejected when the position does not fit the column or the due date is no date; the
  task returned is made from the row as the database gives it back.
\<close>

definition createTask ::
  "backend \<Rightarrow> (string \<Rightarrow> string option) \<Rightarrow> database \<Rightarrow> uuid \<Rightarrow> TaskData
     \<Rightarrow> (error + uuid Task) \<times> database" where
  "createTask be date_in db projectId taskData =
     (case be 0 of
        Raised \<Rightarrow> (Inl Thrown, db)
      | r0 \<Rightarrow>
          let maxPos = (if r0 = Served then max_position_row db projectId else None);
              position = (case maxPos of None \<Rightarrow> 0 | Some p \<Rightarrow> or_zero p) + 1
          in (case be 1 of
                Raised \<Rightarrow> (Inl Thrown, db)
              | Refused \<Rightarrow> (Inl PostgrestError, db)
              | Served \<Rightarrow>
                  (case read_due_date date_in (td_dueDate taskData) of
                     None \<Rightarrow> (Inl PostgrestError, db)
                   | Some due \<Rightarrow>
                       if INTEGER_ok position
                       then
                         let row = new_task_row (next_uuid db) projectId taskData position due
                         in (Inr (dbToTask row),
                             db\<lparr>tasks := tasks db @ [row],
                                 next_uuid := Suc (next_uuid db)\<rparr>)
                       else (Inl PostgrestError, db))))"

definition apply_updates :: "TaskUpdates \<Rightarrow> task_row \<Rightarrow> task_row" where
  \<comment> \<open>\<open>updateData\<close>: only the fields that are not \<open>undefined\<close>; the due date is the
      one that the database read\<close>
  "apply_updates updates row =
     row\<lparr> t_title := (case up_title updates of None \<Rightarrow> t_title row | Some v \<Rightarrow> v),
          t_description :=
            (case up_description updates of None \<Rightarrow> t_description row | Some v \<Rightarrow> Some v),
          t_status := (case up_status updates of None \<Rightarrow> t_status row | Some v \<Rightarrow> v),
          t_priority := (case up_priority updates of None \<Rightarrow> t_priority row | Some v \<Rightarrow> v),
          t_assignee_id :=
            (case up_assigneeId updates of None \<Rightarrow> t_assignee_id row | Some v \<Rightarrow> Some v),
          t_due_date :=
            (case up_dueDate updates of None \<Rightarrow> t_due_date row | Some v \<Rightarrow> Some v),
          t_milestone_id :=
            (case up_milestoneId updates of None \<Rightarrow> t_milestone_id row | Some v \<Rightarrow> Some v) \<rparr>"

definition project_of_task :: "database \<Rightarrow> uuid \<Rightarrow> uuid option" where
  \<comment> \<open>\<open>select('project_id').eq('id', taskId).single()\<close>\<close>
  "project_of_task db taskId = single (map t_project_id [t \<leftarrow> tasks db. t_id t = taskId])"

definition updateTask ::
  "backend \<Rightarrow> (string \<Rightarrow> string option) \<Rightarrow> database \<Rightarrow> uuid \<Rightarrow> TaskUpdates
     \<Rightarrow> (error + unit) \<times> database" where
  "updateTask be date_in db taskId updates =
     (case be 0 of
        Raised \<Rightarrow> (Inl Thrown, db)
      | Refused \<Rightarrow> (Inl PostgrestError, db)
      | Served \<Rightarrow>
          (case read_due_date date_in (up_dueDate updates) of
             None \<Rightarrow> (Inl PostgrestError, db)
           | Some due \<Rightarrow>
               let db1 = db\<lparr>tasks :=
                     map (\<lambda>t. if t_id t = taskId
                              then apply_updates (updates\<lparr>up_dueDate := due\<rparr>) t else t)
                       (tasks db)\<rparr>
               in (case be 1 of
                     Raised \<Rightarrow> (Inl Thrown, db1)
                   | r1 \<Rightarrow>
                       (case (if r1 = Served then project_of_task db1 taskId else None) of
                          Some projectId \<Rightarrow>
                            (Inr (), updateProjectProgress (later 2 be) db1 projectId)
                        | None \<Rightarrow> (Inr (), db1)))))"

definition deleteTask :: "backend \<Rightarrow> database \<Rightarrow> uuid \<Rightarrow> (error + unit) \<times> database" where
  "deleteTask be db taskId =
     (case be 0 of
        Raised \<Rightarrow> (Inl Thrown, db)
      | r0 \<Rightarrow>
          let task = (if r0 = Served then project_of_task db taskId else None)
          in (case be 1 of
                Raised \<Rightarrow> (Inl Thrown, db)
              | Refused \<Rightarrow> (Inl PostgrestError, db)
              | Served \<Rightarrow>
                  let db1 = db\<lparr>tasks := [t \<leftarrow> tasks db. t_id t \<noteq> taskId]\<rparr>
                  in (case task of
                        Some projectId \<Rightarrow>
                          (Inr (), updateProjectProgress (later 2 be) db1 projectId)
                      | None \<Rightarrow> (Inr (), db1))))"

text \<open>
  \<open>moveTask\<close> writes the milestone and the position of a task; a milestone that is
  \<open>undefined\<close> is not sent, and the position, a whole number here, has to fit the
  column. Nothing in the application calls it.
\<close>

definition moveTask ::
  "backend \<Rightarrow> database \<Rightarrow> uuid \<Rightarrow> uuid option \<Rightarrow> int \<Rightarrow> (error + unit) \<times> database" where
  "moveTask be db taskId milestoneId targetPosition =
     (case be 0 of
        Raised \<Rightarrow> (Inl Thrown, db)
      | Refused \<Rightarrow> (Inl PostgrestError, db)
      | Served \<Rightarrow>
          if INTEGER_ok targetPosition
          then (Inr (),
                db\<lparr>tasks :=
                     map (\<lambda>t. if t_id t = taskId
                              then t\<lparr>t_milestone_id :=
                                      (case milestoneId of None \<Rightarrow> t_milestone_id t
                                       | Some m \<Rightarrow> Some m),
                                    t_position := targetPosition\<rparr>
                              else t) (tasks db)\<rparr>)
          else (Inl PostgrestError, db))"

text \<open>
  \<open>handleMoveTask\<close> of the application component: it updates the milestone through
  \<open>updateTask\<close>, reloads the project list (reads only) and reports a failure as a toast.
  \<open>projectId\<close> and \<open>targetTaskId\<close> are its unused arguments.
\<close>

definition milestone_only :: "uuid option \<Rightarrow> TaskUpdates" where
  \<comment> \<open>\<open>{ milestoneId: newMilestoneId }\<close>\<close>
  "milestone_only newMilestoneId =
     \<lparr> up_title = None, up_description = None, up_status = None, up_priority = None,
       up_assigneeId = None, up_dueDate = None, up_milestoneId = newMilestoneId \<rparr>"

definition handleMoveTask ::
  "backend \<Rightarrow> (string \<Rightarrow> string option) \<Rightarrow> database \<Rightarrow> uuid \<Rightarrow> uuid \<Rightarrow> uuid option
     \<Rightarrow> uuid option \<Rightarrow> string list \<times> database" where
  "handleMoveTask be date_in db projectId taskId newMilestoneId targetTaskId =
     (case updateTask be date_in db taskId (milestone_only newMilestoneId) of
        (Inr u, db') \<Rightarrow> ([], db')
      | (Inl e, db') \<Rightarrow> ([''Failed to move task''], db'))"

section \<open>Team and invitations\<close>

definition member_insert_ok :: "database \<Rightarrow> uuid \<Rightarrow> uuid \<Rightarrow> bool" where
  \<comment> \<open>\<open>project_members\<close> has \<open>UNIQUE(project_id, user_id)\<close>; its check on \<open>role\<close>
      admits the three roles\<close>
  "member_insert_ok db projectId userId =
     ([m \<leftarrow> project_members db. m_project_id m = projectId \<and> m_user_id m = userId] = [])"

definition insert_member :: "database \<Rightarrow> uuid \<Rightarrow> uuid \<Rightarrow> ProjectRole \<Rightarrow> database" where
  "insert_member db projectId userId role =
     db\<lparr> project_members := project_members db @
            [\<lparr> m_id = next_uuid db, m_project_id = projectId, m_user_id = userId,
               m_role = role \<rparr>],
         next_uuid := Suc (next_uuid db) \<rparr>"

definition addProjectMember ::
  "backend \<Rightarrow> database \<Rightarrow> uuid \<Rightarrow> uuid \<Rightarrow> ProjectRole option \<Rightarrow> (error + unit) \<times> database" where
  "addProjectMember be db projectId userId role_arg =
     (let role = (case role_arg of None \<Rightarrow> Member | Some r \<Rightarrow> r)
      in (case be 0 of
            Raised \<Rightarrow> (Inl Thrown, db)
          | Refused \<Rightarrow> (Inl PostgrestError, db)
          | Served \<Rightarrow>
              if member_insert_ok db projectId userId
              then (Inr (), insert_member db projectId userId role)
              else (Inl PostgrestError, db)))"

definition existing_member :: "database \<Rightarrow> uuid \<Rightarrow> uuid \<Rightarrow> member_row option" where
  \<comment> \<open>\<open>from('project_members').select('id').eq('project_id', projectId)
      .eq('user_id', invitedUserId).single()\<close>\<close>
  "existing_member db projectId userId =
     single [m \<leftarrow> project_members db. m_project_id m = projectId \<and> m_user_id m = userId]"

definition existing_invitation :: "database \<Rightarrow> uuid \<Rightarrow> uuid \<Rightarrow> invitation_row option" where
  \<comment> \<open>\<open>from('project_invitations').select('id').eq('project_id', projectId)
      .eq('invited_user_id', invitedUserId).eq('status', 'pending').single()\<close>\<close>
  "existing_invitation db projectId userId =
     single [i \<leftarrow> project_invitations db.
              i_project_id i = projectId \<and> i_invited_user_id i = userId \<and> i_status i = pending]"

definition invitation_insert_ok :: "database \<Rightarrow> uuid \<Rightarrow> uuid \<Rightarrow> ProjectRole \<Rightarrow> bool" where
  \<comment> \<open>\<open>project_invitations\<close> has \<open>CHECK (role IN ('Member', 'Viewer'))\<close> and
      \<open>UNIQUE(project_id, invited_user_id)\<close>\<close>
  "invitation_insert_ok db projectId userId role =
     ((role = Member \<or> role = Viewer) \<and>
      [i \<leftarrow> project_invitations db.
         i_project_id i = projectId \<and> i_invited_user_id i = userId] = [])"

definition to_invitation :: "invitation_row \<Rightarrow> ProjectInvitation" where
  "to_invitation d =
     \<lparr> inv_id = i_id d, inv_projectId = i_project_id d,
       inv_invitedUserId = i_invited_user_id d, inv_invitedBy = i_invited_by d,
       inv_role = i_role d, inv_status = i_status d \<rparr>"

definition createProjectInvitation ::
  "backend \<Rightarrow> database \<Rightarrow> uuid \<Rightarrow> uuid \<Rightarrow> uuid \<Rightarrow> ProjectRole option
     \<Rightarrow> (error + ProjectInvitation) \<times> database" where
  "createProjectInvitation be db projectId invitedUserId invitedBy role_arg =
     (let role = (case role_arg of None \<Rightarrow> Member | Some r \<Rightarrow> r)
      in (case be 0 of
            Raised \<Rightarrow> (Inl Thrown, db)
          | r0 \<Rightarrow>
              if r0 = Served \<and> existing_member db projectId invitedUserId \<noteq> None
              then (Inl (AppError ''User is already a member of this project''), db)
              else
                (case be 1 of
                   Raised \<Rightarrow> (Inl Thrown, db)
                 | r1 \<Rightarrow>
                     if r1 = Served \<and> existing_invitation db projectId invitedUserId \<noteq> None
                     then (Inl (AppError
                             ''User already has a pending invitation to this project''), db)
                     else
                       (case be 2 of
                          Raised \<Rightarrow> (Inl Thrown, db)
                        | Refused \<Rightarrow> (Inl PostgrestError, db)
                        | Served \<Rightarrow>
                            if invitation_insert_ok db projectId invitedUserId role
                            then
                              let row = \<lparr> i_id = next_uuid db, i_project_id = projectId,
                                          i_invited_user_id = invitedUserId,
                                          i_invited_by = invitedBy, i_role = role,
                                          i_status = pending \<rparr>
                              in (Inr (to_invitation row),
                                  db\<lparr> project_invitations := project_invitations db @ [row],
                                      next_uuid := Suc (next_uuid db) \<rparr>)
                            else (Inl PostgrestError, db)))))"

definition set_status ::
  "uuid \<Rightarrow> InvitationStatus \<Rightarrow> invitation_row list \<Rightarrow> invitation_row list" where
  \<comment> \<open>\<open>from('project_invitations').update({ status }).eq('id', invitationId)\<close>\<close>
  "set_status invitationId s rows =
     map (\<lambda>i. if i_id i = invitationId then i\<lparr>i_status := s\<rparr> else i) rows"

text \<open>
  In \<open>acceptProjectInvitation\<close> the first query ends in \<open>.single()\<close>, which reports an
  error when no pending row has the identifier, so \<open>invError\<close> is thrown there and the
  test \<open>!invitation\<close> after it has nothing left to catch.
\<close>

definition acceptProjectInvitation ::
  "backend \<Rightarrow> database \<Rightarrow> uuid \<Rightarrow> (error + unit) \<times> database" where
  "acceptProjectInvitation be db invitationId =
     (case be 0 of
        Raised \<Rightarrow> (Inl Thrown, db)
      | Refused \<Rightarrow> (Inl PostgrestError, db)
      | Served \<Rightarrow>
          (case single [i \<leftarrow> project_invitations db.
                         i_id i = invitationId \<and> i_status i = pending] of
             None \<Rightarrow> (Inl PostgrestError, db)
           | Some invitation \<Rightarrow>
               (case be 1 of
                  Raised \<Rightarrow> (Inl Thrown, db)
                | Refused \<Rightarrow> (Inl PostgrestError, db)
                | Served \<Rightarrow>
                    if member_insert_ok db (i_project_id invitation)
                         (i_invited_user_id invitation)
                    then
                      let db1 = insert_member db (i_project_id invitation)
                                  (i_invited_user_id invitation) (i_role invitation)
                      in (case be 2 of
                            Raised \<Rightarrow> (Inl Thrown, db1)
                          | Refused \<Rightarrow> (Inl PostgrestError, db1)
                          | Served \<Rightarrow>
                              (Inr (), db1\<lparr> project_invitations :=
                                 set_status invitationId accepted (project_invitations db1) \<rparr>))
                    else (Inl PostgrestError, db))))"

definition declineProjectInvitation ::
  "backend \<Rightarrow> database \<Rightarrow> uuid \<Rightarrow> (error + unit) \<times> database" where
  "declineProjectInvitation be db invitationId =
     (case be 0 of
        Raised \<Rightarrow> (Inl Thrown, db)
      | Refused \<Rightarrow> (Inl PostgrestError, db)
      | Served \<Rightarrow>
          (Inr (), db\<lparr> project_invitations :=
             set_status invitationId declined (project_invitations db) \<rparr>))"

definition cancelProjectInvitation ::
  "backend \<Rightarrow> database \<Rightarrow> uuid \<Rightarrow> (error + unit) \<times> database" where
  "cancelProjectInvitation be db invitationId =
     (case be 0 of
        Raised \<Rightarrow> (Inl Thrown, db)
      | Refused \<Rightarrow> (Inl PostgrestError, db)
      | Served \<Rightarrow>
          (Inr (), db\<lparr> project_invitations :=
             [i \<leftarrow> project_invitations db.
                \<not> (i_id i = invitationId \<and> i_status i = pending)] \<rparr>))"

section \<open>Task suggestions\<close>

text \<open>
  What one call of \<open>ai.models.generateContent\<close> comes to: the call rejects, or
  \<open>response.text\<close> is empty or missing, or \<open>JSON.parse\<close> fails on it, or it parses.
  A parsed value is an array or not; an element of the array is \<open>null\<close> (reading a
  property of it throws) or has a \<open>title\<close> and a \<open>priority\<close>, each a string or
  missing. The service's reply to the \<open>n\<close>-th call is the environment's choice, and so
  are the readings of the clock: \<open>clock n\<close> is the \<open>n\<close>-th reading of \<open>Date.now()\<close>
  in milliseconds and \<open>iso_date\<close> is \<open>toISOString().split('T')[0]\<close>. The readings go
  on from one attempt to the next: an attempt that has read the clock \<open>k\<close> times leaves
  the clock \<open>advance k clock\<close> to what follows.
\<close>

datatype js_item = ItemNull | ItemObject "string option" "string option"

datatype js_value = NotArray | Array "js_item list"

datatype ai_reply = CallRejected | NoText | MalformedJson | Parsed js_value

datatype effect = Request | Wait nat

definition advance :: "nat \<Rightarrow> (nat \<Rightarrow> nat) \<Rightarrow> (nat \<Rightarrow> nat)" where
  "advance k clock = (\<lambda>n. clock (n + k))"

definition readings :: "ai_reply \<Rightarrow> nat" where
  \<comment> \<open>how often an attempt reads the clock: twice for each element that \<open>rawTasks.map\<close>
      gets through, which stops at the first \<open>null\<close>\<close>
  "readings r =
     (case r of
        Parsed (Array rawTasks) \<Rightarrow> 2 * length (takeWhile (\<lambda>t. t \<noteq> ItemNull) rawTasks)
      | _ \<Rightarrow> 0)"

definition MAX_RETRIES :: nat where
  "MAX_RETRIES = 3"

fun show_nat :: "nat \<Rightarrow> string" where
  "show_nat n =
     (if n < 10 then [''0123456789'' ! n]
      else show_nat (n div 10) @ [''0123456789'' ! (n mod 10)])"

declare show_nat.simps [simp del]

definition suggested :: "string Task" where
  \<comment> \<open>the fields that no suggestion sets\<close>
  "suggested =
     \<lparr> task_id = [], task_title = [], task_description = None, task_status = TODO,
       task_assigneeId = None, task_dueDate = None, task_priority = MEDIUM,
       task_milestoneId = None \<rparr>"

definition simulateAiResponse :: "(nat \<Rightarrow> nat) \<Rightarrow> (nat \<Rightarrow> string) \<Rightarrow> string \<Rightarrow> string Task list" where
  "simulateAiResponse clock iso_date desc =
     [ suggested\<lparr> task_id := ''sim-1'', task_title := ''Initial Project Setup'',
                  task_priority := HIGH, task_dueDate := Some (iso_date (clock 0)) \<rparr>,
       suggested\<lparr> task_id := ''sim-2'', task_title := ''Research & Analysis'',
                  task_priority := MEDIUM \<rparr>,
       suggested\<lparr> task_id := ''sim-3'', task_title := ''Draft Requirements'',
                  task_priority := HIGH \<rparr>,
       suggested\<lparr> task_id := ''sim-4'', task_title := ''Team Kickoff Meeting'',
                  task_priority := MEDIUM \<rparr>,
       suggested\<lparr> task_id := ''sim-5'', task_title := ''Review Milestone 1'',
                  task_priority := LOW \<rparr> ]"

definition title_of :: "string option \<Rightarrow> string" where
  \<comment> \<open>\<open>t.title || "Untitled Task"\<close>\<close>
  "title_of v = (case v of None \<Rightarrow> ''Untitled Task''
                 | Some s \<Rightarrow> if s = [] then ''Untitled Task'' else s)"

definition priority_of :: "string option \<Rightarrow> Priority" where
  \<comment> \<open>\<open>["High", "Medium", "Low"].includes(t.priority) ? t.priority : "Medium"\<close>\<close>
  "priority_of v =
     (if v = Some ''High'' then HIGH else if v = Some ''Low'' then LOW else MEDIUM)"

definition transform ::
  "(nat \<Rightarrow> nat) \<Rightarrow> (nat \<Rightarrow> string) \<Rightarrow> js_item \<Rightarrow> nat \<Rightarrow> string Task option" where
  \<comment> \<open>the callback of \<open>rawTasks.map\<close>; it reads the clock twice, and throws (\<open>None\<close>)
      on \<open>null\<close>\<close>
  "transform clock iso_date t index =
     (case t of
        ItemNull \<Rightarrow> None
      | ItemObject title priority \<Rightarrow>
          Some (suggested\<lparr> task_id := ''generated-'' @ show_nat (clock (2 * index)) @ ''-'' @
                                          show_nat index,
                           task_title := title_of title,
                           task_priority := priority_of priority,
                           task_dueDate :=
                             Some (iso_date
                                     (clock (2 * index + 1) + 86400000 * (index + 1))) \<rparr>))"

definition attempt_once ::
  "ai_reply \<Rightarrow> (nat \<Rightarrow> nat) \<Rightarrow> (nat \<Rightarrow> string) \<Rightarrow> string Task list option" where
  \<comment> \<open>the body of the \<open>try\<close>: \<open>None\<close> when it throws\<close>
  "attempt_once r clock iso_date =
     (case r of
        Parsed (Array rawTasks) \<Rightarrow>
          if length rawTasks = 0 then None
          else those (map (\<lambda>(t, index). transform clock iso_date t index)
                        (zip rawTasks [0 ..< length rawTasks]))
      | _ \<Rightarrow> None)"

function retry_loop ::
  "(nat \<Rightarrow> ai_reply) \<Rightarrow> (nat \<Rightarrow> nat) \<Rightarrow> (nat \<Rightarrow> string) \<Rightarrow> string \<Rightarrow> nat
     \<Rightarrow> string Task list \<times> effect list" where
  "retry_loop service clock iso_date desc attempt =
     (if attempt < MAX_RETRIES
      then
        (case attempt_once (service attempt) clock iso_date of
           Some ts \<Rightarrow> (ts, [Request])
         | None \<Rightarrow>
             if MAX_RETRIES \<le> attempt + 1
             then (simulateAiResponse (advance (readings (service attempt)) clock) iso_date
                     desc,
                   [Request])
             else
               (case retry_loop service (advance (readings (service attempt)) clock) iso_date
                       desc (attempt + 1) of
                  (ts, trace) \<Rightarrow> (ts, Request # Wait (1000 * 2 ^ (attempt + 1)) # trace)))
      else (simulateAiResponse clock iso_date desc, []))"
  by pat_completeness auto
termination
  by (relation "measure (\<lambda>(service, clock, iso_date, desc, attempt). MAX_RETRIES - attempt)")
    auto

declare retry_loop.simps [simp del]

definition generateProjectTasks ::
  "string option \<Rightarrow> (nat \<Rightarrow> ai_reply) \<Rightarrow> (nat \<Rightarrow> nat) \<Rightarrow> (nat \<Rightarrow> string) \<Rightarrow> string \<Rightarrow> string
     \<Rightarrow> string Task list \<times> effect list" where
  \<comment> \<open>the first argument is \<open>process.env.API_KEY\<close> when it is a string; \<open>!apiKey\<close>
      holds for the empty string too\<close>
  "generateProjectTasks apiKey service clock iso_date projectDescription projectType =
     (if apiKey = None \<or> apiKey = Some []
      then (simulateAiResponse clock iso_date projectDescription, [])
      else retry_loop service clock iso_date projectDescription 0)"

section \<open>What the specification measures\<close>

definition completedTaskCount :: "database \<Rightarrow> uuid \<Rightarrow> nat" where
  "completedTaskCount db projectId =
     length [t \<leftarrow> tasks db. t_project_id t = projectId \<and> t_status t = COMPLETED]"

definition totalTaskCount :: "database \<Rightarrow> uuid \<Rightarrow> nat" where
  "totalTaskCount db projectId = length [t \<leftarrow> tasks db. t_project_id t = projectId]"

definition stored_progress :: "database \<Rightarrow> uuid \<Rightarrow> int list" where
  \<comment> \<open>the \<open>progress\<close> column of the project's row\<close>
  "stored_progress db projectId = map p_progress [p \<leftarrow> projects db. p_id p = projectId]"

definition spec_progress :: "database \<Rightarrow> uuid \<Rightarrow> int" where
  \<comment> \<open>the specification's formula, in exact arithmetic\<close>
  "spec_progress db projectId =
     (if totalTaskCount db projectId = 0 then 0
      else round_half_up (100 * int (completedTaskCount db projectId))
             (int (totalTaskCount db projectId)))"

definition positions :: "database \<Rightarrow> uuid \<Rightarrow> int list" where
  "positions db projectId = map t_position [t \<leftarrow> tasks db. t_project_id t = projectId]"

definition next_position :: "database \<Rightarrow> uuid \<Rightarrow> int" where
  \<comment> \<open>the specification's position of a new task: the greatest position in the project
      plus one, 1 in a project without tasks\<close>
  "next_position db projectId =
     (if positions db projectId = [] then 1 else Max (set (positions db projectId)) + 1)"

definition invitation_status :: "database \<Rightarrow> uuid \<Rightarrow> InvitationStatus list" where
  \<comment> \<open>the status of the rows that have the identifier\<close>
  "invitation_status db invitationId =
     map i_status [i \<leftarrow> project_invitations db. i_id i = invitationId]"

definition role_allowed :: "invitation_row \<Rightarrow> bool" where
  "role_allowed i = (i_role i = Member \<or> i_role i = Viewer)"

text \<open>
  The states of the database that the operations on invitations, members and tasks lead
  to, from any state in which the table of invitations is as the migration creates it.
\<close>

inductive reachable :: "database \<Rightarrow> bool" where
  created: "project_invitations db = [] \<Longrightarrow> reachable db"
| invite: "reachable db \<Longrightarrow>
     reachable (snd (createProjectInvitation be db projectId invitedUserId invitedBy role_arg))"
| accept: "reachable db \<Longrightarrow> reachable (snd (acceptProjectInvitation be db invitationId))"
| decline: "reachable db \<Longrightarrow> reachable (snd (declineProjectInvitation be db invitationId))"
| cancel: "reachable db \<Longrightarrow> reachable (snd (cancelProjectInvitation be db invitationId))"
| add_member: "reachable db \<Longrightarrow>
     reachable (snd (addProjectMember be db projectId userId role_arg))"
| create_task: "reachable db \<Longrightarrow>
     reachable (snd (createTask be date_in db projectId taskData))"
| update_task: "reachable db \<Longrightarrow> reachable (snd (updateTask be date_in db taskId updates))"
| delete_task: "reachable db \<Longrightarrow> reachable (snd (deleteTask be db taskId))"
| move_task: "reachable db \<Longrightarrow>
     reachable (snd (moveTask be db taskId milestoneId targetPosition))"

section \<open>Sample states and environments\<close>

definition demo_db :: database where
  \<comment> \<open>one project, numbered 1, owned by user 10\<close>
  "demo_db =
     \<lparr> projects = [\<lparr> p_id = 1, p_name = ''Demo'', p_progress = 0 \<rparr>],
       project_members = [\<lparr> m_id = 2, m_project_id = 1, m_user_id = 10, m_role = Owner \<rparr>],
       tasks = [],
       project_invitations = [],
       next_uuid = 20 \<rparr>"

definition is_digit :: "char \<Rightarrow> bool" where
  "is_digit c = (c \<in> set ''0123456789'')"

definition iso_dates :: "string \<Rightarrow> string option" where
  \<comment> \<open>a reading of dates that takes the form \<open>YYYY-MM-DD\<close> only, and gives it back\<close>
  "iso_dates text =
     (if length text = 10 \<and> text ! 4 = CHR ''-'' \<and> text ! 7 = CHR ''-'' \<and>
         list_all is_digit (take 4 text @ take 2 (drop 5 text) @ drop 8 text)
      then Some text else None)"

definition lookup_refused :: backend where
  \<comment> \<open>the backend refuses the first call of an operation and serves the rest\<close>
  "lookup_refused n = (if n = 0 then Refused else Served)"

definition demo_task :: "string \<Rightarrow> TaskData" where
  "demo_task title =
     \<lparr> td_title = title, td_description = None, td_status = None, td_priority = None,
       td_assigneeId = None, td_dueDate = None, td_milestoneId = None \<rparr>"

definition status_only :: "TaskStatus \<Rightarrow> TaskUpdates" where
  \<comment> \<open>\<open>{ status }\<close>\<close>
  "status_only s =
     \<lparr> up_title = None, up_description = None, up_status = Some s, up_priority = None,
       up_assigneeId = None, up_dueDate = None, up_milestoneId = None \<rparr>"

definition db_one_done :: database where
  \<comment> \<open>a task is created in the demo project (it is row 20) and then completed\<close>
  "db_one_done =
     snd (updateTask served iso_dates
            (snd (createTask served iso_dates demo_db 1 (demo_task ''Design'')))
            20 (status_only COMPLETED))"

definition db_two_tasks :: database where
  \<comment> \<open>a second task is created\<close>
  "db_two_tasks = snd (createTask served iso_dates db_one_done 1 (demo_task ''Build''))"

definition db_last_position :: database where
  \<comment> \<open>the task of the demo project is moved to the last position of the column\<close>
  "db_last_position = snd (moveTask served db_one_done 20 None 2147483647)"

definition db_invited :: database where
  \<comment> \<open>user 10 invites user 11 to the demo project as a viewer (invitation 20)\<close>
  "db_invited = snd (createProjectInvitation served demo_db 1 11 10 (Some Viewer))"

definition db_invited_member :: database where
  \<comment> \<open>user 11 is then added to the team directly\<close>
  "db_invited_member = snd (addProjectMember served db_invited 1 11 None)"

definition db_declined :: database where
  \<comment> \<open>or user 11 declines the invitation\<close>
  "db_declined = snd (declineProjectInvitation served db_invited 20)"

definition recompute_down :: backend where
  \<comment> \<open>the backend serves the first two calls of an operation and rejects the rest\<close>
  "recompute_down n = (if n < 2 then Served else Raised)"

definition sample_clock :: "nat \<Rightarrow> nat" where
  "sample_clock n = 1700000000000 + n"

definition sample_date :: "nat \<Rightarrow> string" where
  \<comment> \<open>stands in for the calendar date: the number of the day\<close>
  "sample_date ms = show_nat (ms div 86400000)"

definition short_service :: "nat \<Rightarrow> ai_reply" where
  \<comment> \<open>the service answers every call with an array of one task\<close>
  "short_service n = Parsed (Array [ItemObject (Some ''Only task'') (Some ''High'')])"

definition down_service :: "nat \<Rightarrow> ai_reply" where
  "down_service n = CallRejected"

definition torn_service :: "nat \<Rightarrow> ai_reply" where
  \<comment> \<open>every answer is an array of a task and a \<open>null\<close>\<close>
  "torn_service n = Parsed (Array [ItemObject (Some ''Task'') (Some ''Low''), ItemNull])"

definition late_service :: "nat \<Rightarrow> ai_reply" where
  \<comment> \<open>two failures, then six tasks\<close>
  "late_service n =
     (if n < 2 then MalformedJson
      else Parsed (Array (replicate 6 (ItemObject (Some ''Task'') (Some ''Low'')))))"

section \<open>Evaluation and frame lemmas\<close>

lemmas number_defs = Math_round_def js_times_def js_divide_def to_double_def scaled_def
  rne_def bits.simps Let_def

lemmas task_defs = createTask_def updateTask_def deleteTask_def updateProjectProgress_def
  update_progress_def set_progress_def max_position_row_def new_task_row_def
  project_of_task_def apply_updates_def single_def or_zero_def later_def dbToTask_def
  read_due_date_def INTEGER_ok_def moveTask_def

lemmas measure_defs = stored_progress_def spec_progress_def completedTaskCount_def
  totalTaskCount_def round_half_up_def positions_def next_position_def

lemmas invitation_defs = createProjectInvitation_def acceptProjectInvitation_def
  declineProjectInvitation_def cancelProjectInvitation_def addProjectMember_def
  existing_member_def existing_invitation_def invitation_insert_ok_def member_insert_ok_def
  insert_member_def set_status_def to_invitation_def single_def

subsection \<open>Progress recomputation changes the progress column only\<close>

lemma update_progress_frame:
  "tasks (update_progress r db projectId v) = tasks db"
  "project_members (update_progress r db projectId v) = project_members db"
  "project_invitations (update_progress r db projectId v) = project_invitations db"
  "next_uuid (update_progress r db projectId v) = next_uuid db"
  "map p_id (projects (update_progress r db projectId v)) = map p_id (projects db)"
  "map p_name (projects (update_progress r db projectId v)) = map p_name (projects db)"
  by (simp_all add: update_progress_def set_progress_def comp_def)

lemma updateProjectProgress_frame:
  "tasks (updateProjectProgress be db projectId) = tasks db"
  "project_members (updateProjectProgress be db projectId) = project_members db"
  "project_invitations (updateProjectProgress be db projectId) = project_invitations db"
  "next_uuid (updateProjectProgress be db projectId) = next_uuid db"
  "map p_id (projects (updateProjectProgress be db projectId)) = map p_id (projects db)"
  "map p_name (projects (updateProjectProgress be db projectId)) = map p_name (projects db)"
  by (simp_all add: updateProjectProgress_def update_progress_frame Let_def
      split: reply.split option.split)

lemma updateProjectProgress_only_projects:
  "updateProjectProgress be db projectId =
     db\<lparr>projects := projects (updateProjectProgress be db projectId)\<rparr>"
  by (simp add: updateProjectProgress_def update_progress_def Let_def
      split: reply.split option.split)

lemma read_no_due_date: "read_due_date date_in None = Some None"
  by (simp add: read_due_date_def)

lemma updateTask_frame:
  "project_members (snd (updateTask be date_in db taskId updates)) = project_members db"
  "project_invitations (snd (updateTask be date_in db taskId updates)) = project_invitations db"
  "next_uuid (snd (updateTask be date_in db taskId updates)) = next_uuid db"
  "map p_id (projects (snd (updateTask be date_in db taskId updates))) = map p_id (projects db)"
  "map p_name (projects (snd (updateTask be date_in db taskId updates))) =
     map p_name (projects db)"
  by (simp_all add: updateTask_def updateProjectProgress_frame Let_def
      split: reply.split option.split)

lemma other_operations_keep_invitations:
  "project_invitations (snd (addProjectMember be db projectId userId role_arg)) =
     project_invitations db"
  "project_invitations (snd (createTask be date_in db projectId taskData)) =
     project_invitations db"
  "project_invitations (snd (updateTask be date_in db taskId updates)) = project_invitations db"
  "project_invitations (snd (deleteTask be db taskId)) = project_invitations db"
  "project_invitations (snd (moveTask be db taskId milestoneId targetPosition)) =
     project_invitations db"
  by (simp_all add: addProjectMember_def insert_member_def createTask_def updateTask_def
      deleteTask_def moveTask_def updateProjectProgress_frame Let_def
      split: reply.split option.split)

subsection \<open>Sample states\<close>

lemma db_one_done_eval:
  "db_one_done =
     \<lparr> projects = [\<lparr> p_id = 1, p_name = ''Demo'', p_progress = 100 \<rparr>],
       project_members = [\<lparr> m_id = 2, m_project_id = 1, m_user_id = 10, m_role = Owner \<rparr>],
       tasks = [\<lparr> t_id = 20, t_project_id = 1, t_milestone_id = None, t_title = ''Design'',
                  t_description = None, t_status = COMPLETED, t_priority = MEDIUM,
                  t_assignee_id = None, t_due_date = None, t_position = 1 \<rparr>],
       project_invitations = [],
       next_uuid = 21 \<rparr>"
  by (simp add: db_one_done_def demo_db_def demo_task_def status_only_def served_def
      task_defs number_defs)

lemma db_two_tasks_eval:
  "db_two_tasks =
     \<lparr> projects = [\<lparr> p_id = 1, p_name = ''Demo'', p_progress = 100 \<rparr>],
       project_members = [\<lparr> m_id = 2, m_project_id = 1, m_user_id = 10, m_role = Owner \<rparr>],
       tasks = [\<lparr> t_id = 20, t_project_id = 1, t_milestone_id = None, t_title = ''Design'',
                  t_description = None, t_status = COMPLETED, t_priority = MEDIUM,
                  t_assignee_id = None, t_due_date = None, t_position = 1 \<rparr>,
                \<lparr> t_id = 21, t_project_id = 1, t_milestone_id = None, t_title = ''Build'',
                  t_description = None, t_status = TODO, t_priority = MEDIUM,
                  t_assignee_id = None, t_due_date = None, t_position = 2 \<rparr>],
       project_invitations = [],
       next_uuid = 22 \<rparr>"
  by (simp add: db_two_tasks_def db_one_done_eval demo_task_def served_def createTask_def
      max_position_row_def new_task_row_def single_def or_zero_def read_due_date_def
      INTEGER_ok_def Let_def)

lemma db_last_position_eval:
  "db_last_position =
     \<lparr> projects = [\<lparr> p_id = 1, p_name = ''Demo'', p_progress = 100 \<rparr>],
       project_members = [\<lparr> m_id = 2, m_project_id = 1, m_user_id = 10, m_role = Owner \<rparr>],
       tasks = [\<lparr> t_id = 20, t_project_id = 1, t_milestone_id = None, t_title = ''Design'',
                  t_description = None, t_status = COMPLETED, t_priority = MEDIUM,
                  t_assignee_id = None, t_due_date = None, t_position = 2147483647 \<rparr>],
       project_invitations = [],
       next_uuid = 21 \<rparr>"
  by (simp add: db_last_position_def db_one_done_eval served_def moveTask_def INTEGER_ok_def)

lemma db_invited_eval:
  "db_invited =
     \<lparr> projects = [\<lparr> p_id = 1, p_name = ''Demo'', p_progress = 0 \<rparr>],
       project_members = [\<lparr> m_id = 2, m_project_id = 1, m_user_id = 10, m_role = Owner \<rparr>],
       tasks = [],
       project_invitations =
         [\<lparr> i_id = 20, i_project_id = 1, i_invited_user_id = 11, i_invited_by = 10,
            i_role = Viewer, i_status = pending \<rparr>],
       next_uuid = 21 \<rparr>"
  by (simp add: db_invited_def demo_db_def served_def invitation_defs)

lemma db_invited_member_eval:
  "db_invited_member =
     \<lparr> projects = [\<lparr> p_id = 1, p_name = ''Demo'', p_progress = 0 \<rparr>],
       project_members = [\<lparr> m_id = 2, m_project_id = 1, m_user_id = 10, m_role = Owner \<rparr>,
                          \<lparr> m_id = 21, m_project_id = 1, m_user_id = 11, m_role = Member \<rparr>],
       tasks = [],
       project_invitations =
         [\<lparr> i_id = 20, i_project_id = 1, i_invited_user_id = 11, i_invited_by = 10,
            i_role = Viewer, i_status = pending \<rparr>],
       next_uuid = 22 \<rparr>"
  by (simp add: db_invited_member_def db_invited_eval served_def invitation_defs)

lemma db_declined_eval:
  "db_declined =
     \<lparr> projects = [\<lparr> p_id = 1, p_name = ''Demo'', p_progress = 0 \<rparr>],
       project_members = [\<lparr> m_id = 2, m_project_id = 1, m_user_id = 10, m_role = Owner \<rparr>],
       tasks = [],
       project_invitations =
         [\<lparr> i_id = 20, i_project_id = 1, i_invited_user_id = 11, i_invited_by = 10,
            i_role = Viewer, i_status = declined \<rparr>],
       next_uuid = 21 \<rparr>"
  by (simp add: db_declined_def db_invited_eval served_def invitation_defs)

lemma progress_on_doubles:
  "Math_round (js_times (js_divide 1 2) 100) = 50 \<and>
   Math_round (js_times (js_divide 1 3) 100) = 33 \<and>
   Math_round (js_times (js_divide 2 3) 100) = 67 \<and>
   Math_round (js_times (js_divide 23 40) 100) = 57 \<and> round_half_up (100 * 23) 40 = 58"
  by (simp add: number_defs round_half_up_def)

lemma deleteTask_recomputes_example:
  "deleteTask served db_two_tasks 20 =
     (Inr (),
      db_two_tasks\<lparr> tasks := [t \<leftarrow> tasks db_two_tasks. t_id t \<noteq> 20],
                    projects := [\<lparr> p_id = 1, p_name = ''Demo'', p_progress = 0 \<rparr>] \<rparr>)"
  by (simp add: db_two_tasks_eval served_def task_defs number_defs)

section \<open>Tasks and progress\<close>

subsection \<open>Progress after a task is created\<close>

text \<open>
  C1. The stored progress of a project is to equal round(100 * completed / total) after any
  task create, update or delete. \<open>updateTask\<close> and \<open>deleteTask\<close> recompute it;
  \<open>createTask\<close> does not. In the demo project one task was created and completed, and
  the stored progress is 100, as the formula says. Creating a second task leaves the
  stored progress at 100, while one task of two is completed and the formula gives 50.
\<close>

theorem createTask_leaves_progress_stale:
  "stored_progress db_one_done 1 = [100] \<and> spec_progress db_one_done 1 = 100 \<and>
   totalTaskCount (snd (createTask served iso_dates db_one_done 1 (demo_task ''Build''))) 1 = 2 \<and>
   completedTaskCount (snd (createTask served iso_dates db_one_done 1 (demo_task ''Build''))) 1 = 1 \<and>
   stored_progress (snd (createTask served iso_dates db_one_done 1 (demo_task ''Build''))) 1 = [100] \<and>
   spec_progress (snd (createTask served iso_dates db_one_done 1 (demo_task ''Build''))) 1 = 50"
  unfolding db_two_tasks_def [symmetric]
  by (simp add: db_one_done_eval db_two_tasks_eval measure_defs)

subsection \<open>The position and the status of a created task\<close>

lemma sorted_last_greatest:
  fixes ys :: "int list"
  shows "sorted ys \<Longrightarrow> y \<in> set ys \<Longrightarrow> y \<le> last ys"
  by (induction ys) (auto split: if_splits)

lemma take_1_rev_sort:
  fixes xs :: "int list"
  assumes "xs \<noteq> []"
  shows "take 1 (rev (sort xs)) = [Max (set xs)]"
proof -
  have ne: "sort xs \<noteq> []" using assms by (metis length_sort length_0_conv)
  have "Max (set (sort xs)) = last (sort xs)"
  proof (rule Max_eqI)
    show "finite (set (sort xs))" by simp
    show "y \<le> last (sort xs)" if "y \<in> set (sort xs)" for y
      using that by (intro sorted_last_greatest) simp_all
    show "last (sort xs) \<in> set (sort xs)" using ne by (rule last_in_set)
  qed
  moreover have "take 1 (rev (sort xs)) = [last (sort xs)]"
    using ne by (cases "sort xs" rule: rev_cases) simp_all
  ultimately show ?thesis by simp
qed

lemma max_position_row_eq:
  "max_position_row db projectId =
     (if positions db projectId = [] then None else Some (Max (set (positions db projectId))))"
proof (cases "positions db projectId = []")
  case True
  then show ?thesis by (simp add: max_position_row_def positions_def single_def)
next
  case False
  then have "take 1 (rev (sort (positions db projectId))) = [Max (set (positions db projectId))]"
    by (rule take_1_rev_sort)
  with False show ?thesis by (simp add: max_position_row_def positions_def single_def)
qed

lemma position_after_lookup:
  "(case max_position_row db projectId of None \<Rightarrow> 0 | Some p \<Rightarrow> or_zero p) + 1 =
     next_position db projectId"
  by (simp add: max_position_row_eq next_position_def or_zero_def)

lemma createTask_served:
  assumes "be 0 = Served" and "be 1 = Served"
    and "INTEGER_ok (next_position db projectId)"
    and "read_due_date date_in (td_dueDate taskData) = Some due"
  shows "createTask be date_in db projectId taskData =
     (Inr (dbToTask (new_task_row (next_uuid db) projectId taskData
                       (next_position db projectId) due)),
      db\<lparr>tasks := tasks db @
             [new_task_row (next_uuid db) projectId taskData (next_position db projectId) due],
          next_uuid := Suc (next_uuid db)\<rparr>)"
  using assms by (simp add: createTask_def position_after_lookup Let_def)

lemma createTask_lookup_refused:
  assumes "be 0 = Refused" and "be 1 = Served"
    and "read_due_date date_in (td_dueDate taskData) = Some due"
  shows "createTask be date_in db projectId taskData =
     (Inr (dbToTask (new_task_row (next_uuid db) projectId taskData 1 due)),
      db\<lparr>tasks := tasks db @ [new_task_row (next_uuid db) projectId taskData 1 due],
          next_uuid := Suc (next_uuid db)\<rparr>)"
  using assms by (simp add: createTask_def INTEGER_ok_def Let_def)

lemma createTask_rejected:
  assumes "be 0 = Served" and "be 1 = Served"
    and "\<not> INTEGER_ok (next_position db projectId) \<or>
         read_due_date date_in (td_dueDate taskData) = None"
  shows "createTask be date_in db projectId taskData = (Inl PostgrestError, db)"
  using assms
  by (auto simp add: createTask_def position_after_lookup Let_def split: option.split)

lemma new_task_row_fields:
  "t_project_id (new_task_row fresh projectId taskData position due) = projectId"
  "t_position (new_task_row fresh projectId taskData position due) = position"
  "t_due_date (new_task_row fresh projectId taskData position due) = due"
  "td_status taskData = None \<Longrightarrow>
     t_status (new_task_row fresh projectId taskData position due) = TODO"
  "td_status taskData = None \<Longrightarrow>
     task_status (dbToTask (new_task_row fresh projectId taskData position due)) = TODO"
  by (simp_all add: new_task_row_def dbToTask_def)

text \<open>
  C6, as stated, fails where the position query is refused: its error is not read, the
  insert goes on from 0, and \<open>createTask\<close> returns the new task. The demo project has
  one task at position 1, the next position is 2, and the task created after a refused
  query is at position 1 as well.
\<close>

theorem createTask_after_refused_query:
  "positions db_one_done 1 = [1] \<and> next_position db_one_done 1 = 2 \<and>
   fst (createTask lookup_refused iso_dates db_one_done 1 (demo_task ''Build'')) =
     Inr \<lparr> task_id = 21, task_title = ''Build'', task_description = None,
           task_status = TODO, task_assigneeId = None, task_dueDate = None,
           task_priority = MEDIUM, task_milestoneId = None \<rparr> \<and>
   positions (snd (createTask lookup_refused iso_dates db_one_done 1 (demo_task ''Build''))) 1 =
     [1, 1]"
  by (simp add: db_one_done_eval lookup_refused_def demo_task_def createTask_def
      new_task_row_def dbToTask_def read_due_date_def INTEGER_ok_def positions_def
      next_position_def Let_def)

text \<open>
  C6, amended. When the backend serves the position query and the insert, the greatest
  position among the project's tasks plus one (1 when the project has no task) fits the
  column and the due date, if one is given, is a date, \<open>createTask\<close> adds one row to the
  table at that position, with status Todo when the caller gave none. When the position
  query is refused and the insert is served, the row is added at position 1. When the
  position does not fit the column or the due date is no date, the insert is rejected and
  nothing is created.
\<close>

theorem createTask_position_and_status:
  "(be 0 = Served \<and> be 1 = Served \<and> INTEGER_ok (next_position db projectId) \<and>
    read_due_date date_in (td_dueDate taskData) = Some due \<longrightarrow>
      (\<exists>row. createTask be date_in db projectId taskData =
               (Inr (dbToTask row),
                db\<lparr>tasks := tasks db @ [row], next_uuid := Suc (next_uuid db)\<rparr>) \<and>
             t_project_id row = projectId \<and>
             t_position row = next_position db projectId \<and>
             t_due_date row = due \<and>
             (td_status taskData = None \<longrightarrow>
                t_status row = TODO \<and> task_status (dbToTask row) = TODO))) \<and>
   (be 0 = Refused \<and> be 1 = Served \<and>
    read_due_date date_in (td_dueDate taskData) = Some due \<longrightarrow>
      (\<exists>row. createTask be date_in db projectId taskData =
               (Inr (dbToTask row),
                db\<lparr>tasks := tasks db @ [row], next_uuid := Suc (next_uuid db)\<rparr>) \<and>
             t_project_id row = projectId \<and>
             t_position row = 1 \<and>
             t_due_date row = due \<and>
             (td_status taskData = None \<longrightarrow>
                t_status row = TODO \<and> task_status (dbToTask row) = TODO))) \<and>
   (be 0 = Served \<and> be 1 = Served \<and>
    (\<not> INTEGER_ok (next_position db projectId) \<or>
     read_due_date date_in (td_dueDate taskData) = None) \<longrightarrow>
      createTask be date_in db projectId taskData = (Inl PostgrestError, db))"
proof (intro conjI impI)
  assume a: "be 0 = Served \<and> be 1 = Served \<and> INTEGER_ok (next_position db projectId) \<and>
    read_due_date date_in (td_dueDate taskData) = Some due"
  let ?row = "new_task_row (next_uuid db) projectId taskData (next_position db projectId) due"
  from a have "createTask be date_in db projectId taskData =
          (Inr (dbToTask ?row),
           db\<lparr>tasks := tasks db @ [?row], next_uuid := Suc (next_uuid db)\<rparr>)"
    by (elim conjE, intro createTask_served) assumption+
  then show "\<exists>row. createTask be date_in db projectId taskData =
               (Inr (dbToTask row),
                db\<lparr>tasks := tasks db @ [row], next_uuid := Suc (next_uuid db)\<rparr>) \<and>
             t_project_id row = projectId \<and>
             t_position row = next_position db projectId \<and>
             t_due_date row = due \<and>
             (td_status taskData = None \<longrightarrow>
                t_status row = TODO \<and> task_status (dbToTask row) = TODO)"
    by (intro exI [of _ ?row]) (simp add: new_task_row_fields)
next
  assume a: "be 0 = Refused \<and> be 1 = Served \<and>
    read_due_date date_in (td_dueDate taskData) = Some due"
  let ?row = "new_task_row (next_uuid db) projectId taskData 1 due"
  from a have "createTask be date_in db projectId taskData =
          (Inr (dbToTask ?row),
           db\<lparr>tasks := tasks db @ [?row], next_uuid := Suc (next_uuid db)\<rparr>)"
    by (elim conjE, intro createTask_lookup_refused) assumption+
  then show "\<exists>row. createTask be date_in db projectId taskData =
               (Inr (dbToTask row),
                db\<lparr>tasks := tasks db @ [row], next_uuid := Suc (next_uuid db)\<rparr>) \<and>
             t_project_id row = projectId \<and>
             t_position row = 1 \<and>
             t_due_date row = due \<and>
             (td_status taskData = None \<longrightarrow>
                t_status row = TODO \<and> task_status (dbToTask row) = TODO)"
    by (intro exI [of _ ?row]) (simp add: new_task_row_fields)
next
  assume "be 0 = Served \<and> be 1 = Served \<and>
    (\<not> INTEGER_ok (next_position db projectId) \<or>
     read_due_date date_in (td_dueDate taskData) = None)"
  then show "createTask be date_in db projectId taskData = (Inl PostgrestError, db)"
    by (elim conjE, intro createTask_rejected) assumption+
qed

text \<open>
  The theorem at the demo project: a second task with every call served, a second task
  after a refused position query, a task after the last position of the column, and a
  task whose due date is no date.
\<close>

theorem createTask_position_and_status_witness:
  "(\<exists>row. createTask served iso_dates db_one_done 1 (demo_task ''Build'') =
            (Inr (dbToTask row),
             db_one_done\<lparr>tasks := tasks db_one_done @ [row],
                          next_uuid := Suc (next_uuid db_one_done)\<rparr>) \<and>
          t_project_id row = 1 \<and> t_position row = 2 \<and> t_due_date row = None \<and>
          t_status row = TODO \<and> task_status (dbToTask row) = TODO) \<and>
   (\<exists>row. createTask lookup_refused iso_dates db_one_done 1 (demo_task ''Build'') =
            (Inr (dbToTask row),
             db_one_done\<lparr>tasks := tasks db_one_done @ [row],
                          next_uuid := Suc (next_uuid db_one_done)\<rparr>) \<and>
          t_project_id row = 1 \<and> t_position row = 1 \<and> t_due_date row = None \<and>
          t_status row = TODO \<and> task_status (dbToTask row) = TODO) \<and>
   next_position db_last_position 1 = 2147483648 \<and>
   createTask served iso_dates db_last_position 1 (demo_task ''Build'') =
     (Inl PostgrestError, db_last_position) \<and>
   iso_dates ''soon'' = None \<and>
   createTask served iso_dates db_one_done 1 ((demo_task ''Build'')\<lparr>td_dueDate := Some ''soon''\<rparr>) =
     (Inl PostgrestError, db_one_done)"
proof -
  have s: "served 0 = Served" "served 1 = Served" "lookup_refused 0 = Refused"
    "lookup_refused 1 = Served"
    by (simp_all add: served_def lookup_refused_def)
  have d: "td_status (demo_task ''Build'') = None"
    "read_due_date iso_dates (td_dueDate (demo_task ''Build'')) = Some None"
    by (simp_all add: demo_task_def read_due_date_def)
  have p: "next_position db_one_done 1 = 2" "INTEGER_ok (next_position db_one_done 1)"
    by (simp_all add: db_one_done_eval next_position_def positions_def INTEGER_ok_def)
  have l: "next_position db_last_position 1 = 2147483648"
    "\<not> INTEGER_ok (next_position db_last_position 1)"
    by (simp_all add: db_last_position_eval next_position_def positions_def INTEGER_ok_def)
  have n: "iso_dates ''soon'' = None"
    "read_due_date iso_dates (td_dueDate ((demo_task ''Build'')\<lparr>td_dueDate := Some ''soon''\<rparr>))
       = None"
    by (simp_all add: iso_dates_def read_due_date_def)
  note thm1 = createTask_position_and_status [where be = served and date_in = iso_dates
      and db = db_one_done and projectId = 1 and taskData = "demo_task ''Build''"
      and due = None]
  note thm2 = createTask_position_and_status [where be = lookup_refused
      and date_in = iso_dates and db = db_one_done and projectId = 1
      and taskData = "demo_task ''Build''" and due = None]
  note thm3 = createTask_position_and_status [where be = served and date_in = iso_dates
      and db = db_last_position and projectId = 1 and taskData = "demo_task ''Build''"]
  note thm4 = createTask_position_and_status [where be = served and date_in = iso_dates
      and db = db_one_done and projectId = 1
      and taskData = "(demo_task ''Build'')\<lparr>td_dueDate := Some ''soon''\<rparr>"]
  have a: "\<exists>row. createTask served iso_dates db_one_done 1 (demo_task ''Build'') =
            (Inr (dbToTask row),
             db_one_done\<lparr>tasks := tasks db_one_done @ [row],
                          next_uuid := Suc (next_uuid db_one_done)\<rparr>) \<and>
          t_project_id row = 1 \<and> t_position row = 2 \<and> t_due_date row = None \<and>
          t_status row = TODO \<and> task_status (dbToTask row) = TODO"
    using thm1 s d p by simp
  have b: "\<exists>row. createTask lookup_refused iso_dates db_one_done 1 (demo_task ''Build'') =
            (Inr (dbToTask row),
             db_one_done\<lparr>tasks := tasks db_one_done @ [row],
                          next_uuid := Suc (next_uuid db_one_done)\<rparr>) \<and>
          t_project_id row = 1 \<and> t_position row = 1 \<and> t_due_date row = None \<and>
          t_status row = TODO \<and> task_status (dbToTask row) = TODO"
    using thm2 s d by simp
  have c: "createTask served iso_dates db_last_position 1 (demo_task ''Build'') =
     (Inl PostgrestError, db_last_position)"
    using thm3 s l by blast
  have e: "createTask served iso_dates db_one_done 1
             ((demo_task ''Build'')\<lparr>td_dueDate := Some ''soon''\<rparr>) =
     (Inl PostgrestError, db_one_done)"
    using thm4 s n by blast
  show ?thesis using a b c e l(1) n(1) by blast
qed

subsection \<open>Moving a task\<close>

lemma apply_milestone_only:
  "apply_updates (milestone_only newMilestoneId) t =
     t\<lparr>t_milestone_id :=
         (case newMilestoneId of None \<Rightarrow> t_milestone_id t | Some m \<Rightarrow> Some m)\<rparr>"
  by (simp add: apply_updates_def milestone_only_def)

lemma milestone_only_no_date:
  "(milestone_only newMilestoneId)\<lparr>up_dueDate := None\<rparr> = milestone_only newMilestoneId"
  "up_dueDate (milestone_only newMilestoneId) = None"
  by (simp_all add: milestone_only_def)

lemma updateTask_milestone_tasks:
  "tasks (snd (updateTask be date_in db taskId (milestone_only newMilestoneId))) =
     (if be 0 = Served
      then map (\<lambda>t. if t_id t = taskId then apply_updates (milestone_only newMilestoneId) t
                    else t) (tasks db)
      else tasks db)"
  by (simp add: updateTask_def updateProjectProgress_frame read_no_due_date
      milestone_only_no_date Let_def split: reply.split option.split)

lemma snd_handleMoveTask:
  "snd (handleMoveTask be date_in db projectId taskId newMilestoneId targetTaskId) =
     snd (updateTask be date_in db taskId (milestone_only newMilestoneId))"
  by (simp add: handleMoveTask_def split: prod.split sum.split)

lemma set_progress_others:
  "[p \<leftarrow> set_progress projectId v rows. p_id p \<noteq> projectId] =
     [p \<leftarrow> rows. p_id p \<noteq> projectId]"
  by (induction rows) (simp_all add: set_progress_def)

lemma set_progress_rest:
  "map (\<lambda>p. p\<lparr>p_progress := 0\<rparr>) (set_progress projectId v rows) =
     map (\<lambda>p. p\<lparr>p_progress := 0\<rparr>) rows"
  by (induction rows) (simp_all add: set_progress_def)

lemma updateProjectProgress_projects:
  "[p \<leftarrow> projects (updateProjectProgress be db projectId). p_id p \<noteq> projectId] =
     [p \<leftarrow> projects db. p_id p \<noteq> projectId]"
  "map (\<lambda>p. p\<lparr>p_progress := 0\<rparr>) (projects (updateProjectProgress be db projectId)) =
     map (\<lambda>p. p\<lparr>p_progress := 0\<rparr>) (projects db)"
  by (simp_all add: updateProjectProgress_def update_progress_def set_progress_others
      set_progress_rest Let_def split: reply.split option.split)

lemma project_of_updated_task:
  "project_of_task
     (db\<lparr>tasks := map (\<lambda>t. if t_id t = taskId then apply_updates updates t else t) (tasks db)\<rparr>)
     taskId = project_of_task db taskId"
proof -
  have "map t_project_id
          [t \<leftarrow> map (\<lambda>t. if t_id t = taskId then apply_updates updates t else t) rows.
             t_id t = taskId] =
        map t_project_id [t \<leftarrow> rows. t_id t = taskId]" for rows
    by (induction rows) (simp_all add: apply_updates_def)
  then show ?thesis by (simp add: project_of_task_def)
qed

lemma updateTask_projects:
  "[p \<leftarrow> projects (snd (updateTask be date_in db taskId updates)).
      Some (p_id p) \<noteq> project_of_task db taskId] =
     [p \<leftarrow> projects db. Some (p_id p) \<noteq> project_of_task db taskId]"
  "map (\<lambda>p. p\<lparr>p_progress := 0\<rparr>) (projects (snd (updateTask be date_in db taskId updates))) =
     map (\<lambda>p. p\<lparr>p_progress := 0\<rparr>) (projects db)"
  by (auto simp add: updateTask_def project_of_updated_task updateProjectProgress_projects
      Let_def split: reply.split option.split)

text \<open>
  C7, as stated, fails on the project: \<open>handleMoveTask\<close> goes through \<open>updateTask\<close>,
  which recomputes the stored progress of the task's project. In the demo project with
  its two tasks the stored progress is 100; moving task 21 without a milestone changes
  no task and sets the stored progress to 50.
\<close>

theorem handleMoveTask_rewrites_progress:
  "stored_progress db_two_tasks 1 = [100] \<and>
   tasks (snd (handleMoveTask served iso_dates db_two_tasks 1 21 None None)) =
     tasks db_two_tasks \<and>
   stored_progress (snd (handleMoveTask served iso_dates db_two_tasks 1 21 None None)) 1 = [50]"
  by (simp add: db_two_tasks_eval served_def handleMoveTask_def milestone_only_def task_defs
      number_defs stored_progress_def)

text \<open>
  C7, amended. Moving a task changes nothing in the table of tasks but the milestone of
  the moved task: every other field of its row, its position among them, and every other
  row stay as they were (and the milestone itself stays when the update is not served or
  no milestone is given). Besides, the stored progress of the moved task's project is
  recomputed: the row of every other project stays as it was, and no project changes in
  anything but its progress. Members, invitations and the identifier supply are
  untouched. The target task has no influence on the result.
\<close>

theorem handleMoveTask_frame:
  "tasks (snd (handleMoveTask be date_in db projectId taskId newMilestoneId targetTaskId)) =
     map (\<lambda>t. if t_id t = taskId \<and> be 0 = Served
              then t\<lparr>t_milestone_id :=
                      (case newMilestoneId of None \<Rightarrow> t_milestone_id t | Some m \<Rightarrow> Some m)\<rparr>
              else t) (tasks db) \<and>
   [p \<leftarrow> projects
           (snd (handleMoveTask be date_in db projectId taskId newMilestoneId targetTaskId)).
      Some (p_id p) \<noteq> project_of_task db taskId] =
     [p \<leftarrow> projects db. Some (p_id p) \<noteq> project_of_task db taskId] \<and>
   map (\<lambda>p. p\<lparr>p_progress := 0\<rparr>)
     (projects (snd (handleMoveTask be date_in db projectId taskId newMilestoneId
                       targetTaskId))) =
     map (\<lambda>p. p\<lparr>p_progress := 0\<rparr>) (projects db) \<and>
   project_members
     (snd (handleMoveTask be date_in db projectId taskId newMilestoneId targetTaskId)) =
     project_members db \<and>
   project_invitations
     (snd (handleMoveTask be date_in db projectId taskId newMilestoneId targetTaskId)) =
     project_invitations db \<and>
   next_uuid (snd (handleMoveTask be date_in db projectId taskId newMilestoneId targetTaskId)) =
     next_uuid db \<and>
   map p_id
     (projects (snd (handleMoveTask be date_in db projectId taskId newMilestoneId
                       targetTaskId))) =
     map p_id (projects db) \<and>
   map p_name
     (projects (snd (handleMoveTask be date_in db projectId taskId newMilestoneId
                       targetTaskId))) =
     map p_name (projects db) \<and>
   handleMoveTask be date_in db projectId taskId newMilestoneId targetTaskId =
     handleMoveTask be date_in db projectId taskId newMilestoneId otherTargetTaskId"
proof -
  have "tasks (snd (updateTask be date_in db taskId (milestone_only newMilestoneId))) =
     map (\<lambda>t. if t_id t = taskId \<and> be 0 = Served
              then t\<lparr>t_milestone_id :=
                      (case newMilestoneId of None \<Rightarrow> t_milestone_id t | Some m \<Rightarrow> Some m)\<rparr>
              else t) (tasks db)"
    by (simp add: updateTask_milestone_tasks apply_milestone_only)
  moreover have "handleMoveTask be date_in db projectId taskId newMilestoneId targetTaskId =
     handleMoveTask be date_in db projectId taskId newMilestoneId otherTargetTaskId"
    by (simp add: handleMoveTask_def)
  ultimately show ?thesis
    by (simp add: snd_handleMoveTask updateTask_frame updateTask_projects)
qed

text \<open>
  The theorem at the demo project: task 21 is moved to milestone 7, and the stored
  progress of the project goes from 100 to 50.
\<close>

theorem handleMoveTask_frame_witness:
  "tasks (snd (handleMoveTask served iso_dates db_two_tasks 1 21 (Some 7) (Some 20))) =
     [\<lparr> t_id = 20, t_project_id = 1, t_milestone_id = None, t_title = ''Design'',
        t_description = None, t_status = COMPLETED, t_priority = MEDIUM,
        t_assignee_id = None, t_due_date = None, t_position = 1 \<rparr>,
      \<lparr> t_id = 21, t_project_id = 1, t_milestone_id = Some 7, t_title = ''Build'',
        t_description = None, t_status = TODO, t_priority = MEDIUM,
        t_assignee_id = None, t_due_date = None, t_position = 2 \<rparr>] \<and>
   map (\<lambda>p. p\<lparr>p_progress := 0\<rparr>)
     (projects (snd (handleMoveTask served iso_dates db_two_tasks 1 21 (Some 7) (Some 20)))) =
     [\<lparr> p_id = 1, p_name = ''Demo'', p_progress = 0 \<rparr>] \<and>
   stored_progress (snd (handleMoveTask served iso_dates db_two_tasks 1 21 (Some 7) (Some 20)))
     1 = [50] \<and>
   handleMoveTask served iso_dates db_two_tasks 1 21 (Some 7) (Some 20) =
     handleMoveTask served iso_dates db_two_tasks 1 21 (Some 7) None"
proof (intro conjI)
  note frame = handleMoveTask_frame [of served iso_dates db_two_tasks 1 21 "Some 7" "Some 20"
      None]
  have "tasks (snd (handleMoveTask served iso_dates db_two_tasks 1 21 (Some 7) (Some 20))) =
     map (\<lambda>t. if t_id t = 21 \<and> served 0 = Served
              then t\<lparr>t_milestone_id :=
                      (case Some 7 of None \<Rightarrow> t_milestone_id t | Some m \<Rightarrow> Some m)\<rparr>
              else t) (tasks db_two_tasks)"
    using frame by blast
  then show "tasks (snd (handleMoveTask served iso_dates db_two_tasks 1 21 (Some 7) (Some 20))) =
     [\<lparr> t_id = 20, t_project_id = 1, t_milestone_id = None, t_title = ''Design'',
        t_description = None, t_status = COMPLETED, t_priority = MEDIUM,
        t_assignee_id = None, t_due_date = None, t_position = 1 \<rparr>,
      \<lparr> t_id = 21, t_project_id = 1, t_milestone_id = Some 7, t_title = ''Build'',
        t_description = None, t_status = TODO, t_priority = MEDIUM,
        t_assignee_id = None, t_due_date = None, t_position = 2 \<rparr>]"
    by (simp add: db_two_tasks_eval served_def)
  have "map (\<lambda>p. p\<lparr>p_progress := 0\<rparr>)
     (projects (snd (handleMoveTask served iso_dates db_two_tasks 1 21 (Some 7) (Some 20)))) =
     map (\<lambda>p. p\<lparr>p_progress := 0\<rparr>) (projects db_two_tasks)"
    using frame by blast
  then show "map (\<lambda>p. p\<lparr>p_progress := 0\<rparr>)
     (projects (snd (handleMoveTask served iso_dates db_two_tasks 1 21 (Some 7) (Some 20)))) =
     [\<lparr> p_id = 1, p_name = ''Demo'', p_progress = 0 \<rparr>]"
    by (simp add: db_two_tasks_eval)
  show "stored_progress
     (snd (handleMoveTask served iso_dates db_two_tasks 1 21 (Some 7) (Some 20))) 1 = [50]"
    by (simp add: db_two_tasks_eval served_def handleMoveTask_def milestone_only_def task_defs
        number_defs stored_progress_def)
  show "handleMoveTask served iso_dates db_two_tasks 1 21 (Some 7) (Some 20) =
     handleMoveTask served iso_dates db_two_tasks 1 21 (Some 7) None"
    using frame by blast
qed

subsection \<open>A failing recomputation\<close>

lemma fst_updateTask:
  "be 0 = Served \<Longrightarrow> read_due_date date_in (up_dueDate updates) \<noteq> None \<Longrightarrow>
   be 1 \<noteq> Raised \<Longrightarrow> fst (updateTask be date_in db taskId updates) = Inr ()"
  by (auto simp add: updateTask_def Let_def split: reply.split option.split)

lemma fst_deleteTask:
  "be 0 \<noteq> Raised \<Longrightarrow> be 1 = Served \<Longrightarrow> fst (deleteTask be db taskId) = Inr ()"
  by (simp add: deleteTask_def Let_def split: reply.split option.split)

lemma stale_after_update:
  "fst (updateTask recompute_down iso_dates
          (snd (createTask served iso_dates demo_db 1 (demo_task ''Design'')))
          20 (status_only COMPLETED)) = Inr () \<and>
   stored_progress
     (snd (updateTask recompute_down iso_dates
             (snd (createTask served iso_dates demo_db 1 (demo_task ''Design'')))
             20 (status_only COMPLETED))) 1 = [0] \<and>
   spec_progress
     (snd (updateTask recompute_down iso_dates
             (snd (createTask served iso_dates demo_db 1 (demo_task ''Design'')))
             20 (status_only COMPLETED))) 1 = 100"
  by (simp add: demo_db_def demo_task_def status_only_def served_def recompute_down_def
      task_defs measure_defs)

text \<open>
  C10. \<open>updateProjectProgress\<close> looks at no error and catches what is thrown. So once
  the update of \<open>updateTask\<close> (its first call) or the delete of \<open>deleteTask\<close> (its
  second call) has succeeded, that is, it is served and, for the update, the due date
  given is a date, the operation returns normally whatever becomes of the recomputation,
  that is of the third and fourth call; the lookup of the task's project, a query of the
  operation itself, may be refused as well, and only a rejected promise there is
  rethrown. The stored progress can then disagree with the tasks: with a backend that
  serves two calls and rejects the rest, completing the only task of the demo project
  leaves the stored progress at 0 where the formula gives 100, and deleting the completed
  one of two tasks leaves it at 100 where the formula gives 0.
\<close>

theorem progress_failure_is_swallowed:
  "(be 0 = Served \<and> read_due_date date_in (up_dueDate updates) \<noteq> None \<and> be 1 \<noteq> Raised \<longrightarrow>
      fst (updateTask be date_in db taskId updates) = Inr ()) \<and>
   (be 0 \<noteq> Raised \<and> be 1 = Served \<longrightarrow> fst (deleteTask be db taskId) = Inr ()) \<and>
   fst (updateTask recompute_down iso_dates
          (snd (createTask served iso_dates demo_db 1 (demo_task ''Design'')))
          20 (status_only COMPLETED)) = Inr () \<and>
   stored_progress
     (snd (updateTask recompute_down iso_dates
             (snd (createTask served iso_dates demo_db 1 (demo_task ''Design'')))
             20 (status_only COMPLETED))) 1 = [0] \<and>
   spec_progress
     (snd (updateTask recompute_down iso_dates
             (snd (createTask served iso_dates demo_db 1 (demo_task ''Design'')))
             20 (status_only COMPLETED))) 1 = 100 \<and>
   fst (deleteTask recompute_down db_two_tasks 20) = Inr () \<and>
   stored_progress (snd (deleteTask recompute_down db_two_tasks 20)) 1 = [100] \<and>
   spec_progress (snd (deleteTask recompute_down db_two_tasks 20)) 1 = 0"
proof -
  have "fst (deleteTask recompute_down db_two_tasks 20) = Inr () \<and>
   stored_progress (snd (deleteTask recompute_down db_two_tasks 20)) 1 = [100] \<and>
   spec_progress (snd (deleteTask recompute_down db_two_tasks 20)) 1 = 0"
    by (simp add: db_two_tasks_eval recompute_down_def task_defs measure_defs)
  then show ?thesis
    using stale_after_update by (simp add: fst_updateTask fst_deleteTask)
qed

text \<open>The theorem at the demo project, the recomputation being rejected.\<close>

theorem progress_failure_is_swallowed_witness:
  "recompute_down 0 = Served \<and> recompute_down 1 = Served \<and> recompute_down 2 = Raised \<and>
   recompute_down 3 = Raised \<and>
   read_due_date iso_dates (up_dueDate (status_only COMPLETED)) = Some None \<and>
   fst (updateTask recompute_down iso_dates db_two_tasks 21 (status_only COMPLETED)) = Inr () \<and>
   fst (deleteTask recompute_down db_two_tasks 21) = Inr ()"
  using progress_failure_is_swallowed [of recompute_down iso_dates "status_only COMPLETED"
      db_two_tasks 21]
  by (simp add: recompute_down_def status_only_def read_due_date_def)

section \<open>Invitations\<close>

subsection \<open>Accepting\<close>

lemma pending_row:
  assumes "[i \<leftarrow> rows. i_id i = invitationId] = [invitation]" and "i_status invitation = pending"
  shows "[i \<leftarrow> rows. i_id i = invitationId \<and> i_status i = pending] = [invitation]"
proof -
  have "[i \<leftarrow> rows. i_id i = invitationId \<and> i_status i = pending] =
        [i \<leftarrow> [i \<leftarrow> rows. i_id i = invitationId]. i_status i = pending]"
    by (simp add: conj_commute)
  with assms show ?thesis by simp
qed

lemma set_status_this:
  "[i \<leftarrow> set_status invitationId s rows. i_id i = invitationId] =
     map (\<lambda>i. i\<lparr>i_status := s\<rparr>) [i \<leftarrow> rows. i_id i = invitationId]"
  by (induction rows) (simp_all add: set_status_def)

lemma set_status_others:
  "[i \<leftarrow> set_status invitationId s rows. i_id i \<noteq> invitationId] =
     [i \<leftarrow> rows. i_id i \<noteq> invitationId]"
  by (induction rows) (simp_all add: set_status_def)

lemma accept_pending:
  assumes "be 0 = Served" and "be 1 = Served" and "be 2 = Served"
    and "[i \<leftarrow> project_invitations db. i_id i = invitationId] = [invitation]"
    and "i_status invitation = pending"
    and "member_insert_ok db (i_project_id invitation) (i_invited_user_id invitation)"
  shows "acceptProjectInvitation be db invitationId =
     (Inr (),
      db\<lparr> project_members := project_members db @
             [\<lparr> m_id = next_uuid db, m_project_id = i_project_id invitation,
                m_user_id = i_invited_user_id invitation, m_role = i_role invitation \<rparr>],
          next_uuid := Suc (next_uuid db),
          project_invitations := set_status invitationId accepted (project_invitations db) \<rparr>)"
  using assms(1,2,3,6) pending_row [OF assms(4,5)]
  by (simp add: acceptProjectInvitation_def single_def insert_member_def Let_def)

lemma accept_already_member:
  assumes "be 0 = Served" and "be 1 = Served"
    and "[i \<leftarrow> project_invitations db. i_id i = invitationId] = [invitation]"
    and "i_status invitation = pending"
    and "\<not> member_insert_ok db (i_project_id invitation) (i_invited_user_id invitation)"
  shows "acceptProjectInvitation be db invitationId = (Inl PostgrestError, db)"
  using assms(1,2,5) pending_row [OF assms(3,4)]
  by (simp add: acceptProjectInvitation_def single_def)

lemma accept_not_pending:
  assumes "[i \<leftarrow> project_invitations db. i_id i = invitationId \<and> i_status i = pending] = []"
  shows "\<exists>e. acceptProjectInvitation be db invitationId = (Inl e, db)"
  using assms by (cases "be 0") (simp_all add: acceptProjectInvitation_def single_def)

text \<open>
  C2, as stated, fails where the invitee has become a member while the invitation was
  pending (\<open>addProjectMember\<close> does not look at invitations): the insert violates
  \<open>UNIQUE(project_id, user_id)\<close>, no membership row is created and the invitation stays
  pending.
\<close>

theorem accept_when_already_member:
  "invitation_status db_invited_member 20 = [pending] \<and>
   acceptProjectInvitation served db_invited_member 20 = (Inl PostgrestError, db_invited_member)"
  by (simp add: db_invited_member_eval served_def acceptProjectInvitation_def single_def
      member_insert_ok_def invitation_status_def)

text \<open>
  C2, amended. When the backend serves the three calls, the invitation with the given
  identifier is pending and its invitee is not yet a member of the project, accepting
  returns normally, appends exactly one membership row, for the invitation's project and
  invitee with the invitation's role, sets the status of that invitation to accepted and
  leaves every other invitation alone. When no pending invitation has the identifier,
  accepting fails and changes nothing, whatever the backend does. When the invitee is
  already a member, accepting fails and changes nothing.
\<close>

theorem acceptProjectInvitation_pending_or_fails:
  "(be 0 = Served \<and> be 1 = Served \<and> be 2 = Served \<and>
    [i \<leftarrow> project_invitations db. i_id i = invitationId] = [invitation] \<and> i_status invitation = pending \<and>
    member_insert_ok db (i_project_id invitation) (i_invited_user_id invitation) \<longrightarrow>
      fst (acceptProjectInvitation be db invitationId) = Inr () \<and>
      project_members (snd (acceptProjectInvitation be db invitationId)) =
        project_members db @
          [\<lparr> m_id = next_uuid db, m_project_id = i_project_id invitation,
             m_user_id = i_invited_user_id invitation, m_role = i_role invitation \<rparr>] \<and>
      [i \<leftarrow> project_invitations (snd (acceptProjectInvitation be db invitationId)).
         i_id i = invitationId] = [invitation\<lparr>i_status := accepted\<rparr>] \<and>
      [i \<leftarrow> project_invitations (snd (acceptProjectInvitation be db invitationId)).
         i_id i \<noteq> invitationId] = [i \<leftarrow> project_invitations db. i_id i \<noteq> invitationId]) \<and>
   ([i \<leftarrow> project_invitations db. i_id i = invitationId \<and> i_status i = pending] = [] \<longrightarrow>
      (\<exists>e. acceptProjectInvitation be db invitationId = (Inl e, db))) \<and>
   (be 0 = Served \<and> be 1 = Served \<and>
    [i \<leftarrow> project_invitations db. i_id i = invitationId] = [invitation] \<and> i_status invitation = pending \<and>
    \<not> member_insert_ok db (i_project_id invitation) (i_invited_user_id invitation) \<longrightarrow>
      acceptProjectInvitation be db invitationId = (Inl PostgrestError, db))"
proof (intro conjI impI)
  assume a: "be 0 = Served \<and> be 1 = Served \<and> be 2 = Served \<and>
    [i \<leftarrow> project_invitations db. i_id i = invitationId] = [invitation] \<and> i_status invitation = pending \<and>
    member_insert_ok db (i_project_id invitation) (i_invited_user_id invitation)"
  then have eq: "acceptProjectInvitation be db invitationId =
     (Inr (),
      db\<lparr> project_members := project_members db @
             [\<lparr> m_id = next_uuid db, m_project_id = i_project_id invitation,
                m_user_id = i_invited_user_id invitation, m_role = i_role invitation \<rparr>],
          next_uuid := Suc (next_uuid db),
          project_invitations := set_status invitationId accepted (project_invitations db) \<rparr>)"
    by (elim conjE, intro accept_pending) assumption+
  show "fst (acceptProjectInvitation be db invitationId) = Inr ()"
    by (simp add: eq)
  show "project_members (snd (acceptProjectInvitation be db invitationId)) =
        project_members db @
          [\<lparr> m_id = next_uuid db, m_project_id = i_project_id invitation,
             m_user_id = i_invited_user_id invitation, m_role = i_role invitation \<rparr>]"
    by (simp add: eq)
  show "[i \<leftarrow> project_invitations (snd (acceptProjectInvitation be db invitationId)).
         i_id i = invitationId] = [invitation\<lparr>i_status := accepted\<rparr>]"
    using a by (simp add: eq set_status_this)
  show "[i \<leftarrow> project_invitations (snd (acceptProjectInvitation be db invitationId)).
         i_id i \<noteq> invitationId] = [i \<leftarrow> project_invitations db. i_id i \<noteq> invitationId]"
    by (simp add: eq set_status_others)
next
  assume "[i \<leftarrow> project_invitations db. i_id i = invitationId \<and> i_status i = pending] = []"
  then show "\<exists>e. acceptProjectInvitation be db invitationId = (Inl e, db)"
    by (rule accept_not_pending)
next
  assume "be 0 = Served \<and> be 1 = Served \<and>
    [i \<leftarrow> project_invitations db. i_id i = invitationId] = [invitation] \<and> i_status invitation = pending \<and>
    \<not> member_insert_ok db (i_project_id invitation) (i_invited_user_id invitation)"
  then show "acceptProjectInvitation be db invitationId = (Inl PostgrestError, db)"
    by (elim conjE, intro accept_already_member) assumption+
qed

text \<open>
  The theorem at the three sample states: a pending invitation, a declined one, and a
  pending one whose invitee is already a member.
\<close>

theorem acceptProjectInvitation_pending_or_fails_witness:
  "fst (acceptProjectInvitation served db_invited 20) = Inr () \<and>
   project_members (snd (acceptProjectInvitation served db_invited 20)) =
     project_members db_invited @
       [\<lparr> m_id = 21, m_project_id = 1, m_user_id = 11, m_role = Viewer \<rparr>] \<and>
   invitation_status db_invited 20 = [pending] \<and>
   invitation_status (snd (acceptProjectInvitation served db_invited 20)) 20 = [accepted] \<and>
   invitation_status db_declined 20 = [declined] \<and>
   (\<exists>e. acceptProjectInvitation served db_declined 20 = (Inl e, db_declined)) \<and>
   acceptProjectInvitation served db_invited_member 20 = (Inl PostgrestError, db_invited_member)"
proof -
  let ?row = "\<lparr> i_id = 20, i_project_id = 1, i_invited_user_id = 11, i_invited_by = 10,
                 i_role = Viewer, i_status = pending \<rparr>"
  have s: "served 0 = Served" "served 1 = Served" "served 2 = Served"
    by (simp_all add: served_def)
  have 1: "[i \<leftarrow> project_invitations db_invited. i_id i = 20] = [?row]" "i_status ?row = pending"
    "member_insert_ok db_invited (i_project_id ?row) (i_invited_user_id ?row)"
    by (simp_all add: db_invited_eval member_insert_ok_def)
  have 2: "[i \<leftarrow> project_invitations db_declined. i_id i = 20 \<and> i_status i = pending] = []"
    by (simp add: db_declined_eval)
  have 3: "[i \<leftarrow> project_invitations db_invited_member. i_id i = 20] = [?row]"
    "\<not> member_insert_ok db_invited_member (i_project_id ?row) (i_invited_user_id ?row)"
    by (simp_all add: db_invited_member_eval member_insert_ok_def)
  from acceptProjectInvitation_pending_or_fails [where be = served and db = db_invited and invitationId = 20
      and invitation = ?row] s 1
  have a: "fst (acceptProjectInvitation served db_invited 20) = Inr ()"
    "project_members (snd (acceptProjectInvitation served db_invited 20)) =
       project_members db_invited @
         [\<lparr> m_id = next_uuid db_invited, m_project_id = 1, m_user_id = 11, m_role = Viewer \<rparr>]"
    "[i \<leftarrow> project_invitations (snd (acceptProjectInvitation served db_invited 20)).
        i_id i = 20] = [?row\<lparr>i_status := accepted\<rparr>]"
    by simp_all
  from acceptProjectInvitation_pending_or_fails [where be = served and db = db_declined and invitationId = 20] 2
  have b: "\<exists>e. acceptProjectInvitation served db_declined 20 = (Inl e, db_declined)"
    by blast
  from acceptProjectInvitation_pending_or_fails [where be = served and db = db_invited_member and invitationId = 20
      and invitation = ?row] s 1(2) 3
  have c: "acceptProjectInvitation served db_invited_member 20 =
             (Inl PostgrestError, db_invited_member)"
    by blast
  have n: "next_uuid db_invited = 21" "invitation_status db_invited 20 = [pending]"
    "invitation_status db_declined 20 = [declined]"
    by (simp_all add: db_invited_eval db_declined_eval invitation_status_def)
  have d: "invitation_status (snd (acceptProjectInvitation served db_invited 20)) 20 =
             [accepted]"
    using a(3) by (simp add: invitation_status_def)
  show ?thesis using a(1,2) b c d n by simp
qed

subsection \<open>Inviting\<close>

text \<open>
  A failed invite leaves the database as it was. With the checks served it fails for a
  member and for an invitee with a pending invitation, each with its own message, before
  the insert; for an invitee without any invitation to the project it appends a pending
  one.
\<close>

lemma invite_failure_changes_nothing:
  "fst (createProjectInvitation be db projectId invitedUserId invitedBy role_arg) = Inl e \<Longrightarrow>
   snd (createProjectInvitation be db projectId invitedUserId invitedBy role_arg) = db"
  by (auto simp add: createProjectInvitation_def Let_def split: reply.splits if_splits)

lemma invite_member_fails:
  assumes "be 0 = Served"
    and "[m \<leftarrow> project_members db. m_project_id m = projectId \<and> m_user_id m = invitedUserId] = [m0]"
  shows "createProjectInvitation be db projectId invitedUserId invitedBy role_arg =
           (Inl (AppError ''User is already a member of this project''), db)"
  using assms by (simp add: createProjectInvitation_def existing_member_def single_def)

lemma invite_pending_fails:
  assumes "be 0 = Served" and "be 1 = Served"
    and "[m \<leftarrow> project_members db. m_project_id m = projectId \<and> m_user_id m = invitedUserId] = []"
    and "[i \<leftarrow> project_invitations db. i_project_id i = projectId \<and>
            i_invited_user_id i = invitedUserId \<and> i_status i = pending] = [i0]"
  shows "createProjectInvitation be db projectId invitedUserId invitedBy role_arg =
           (Inl (AppError ''User already has a pending invitation to this project''), db)"
  using assms
  by (simp add: createProjectInvitation_def existing_member_def existing_invitation_def
      single_def)

lemma invite_first_time:
  assumes "be 0 = Served" and "be 1 = Served" and "be 2 = Served"
    and "[m \<leftarrow> project_members db. m_project_id m = projectId \<and> m_user_id m = invitedUserId] = []"
    and "[i \<leftarrow> project_invitations db. i_project_id i = projectId \<and>
            i_invited_user_id i = invitedUserId] = []"
    and "role = Member \<or> role = Viewer"
  shows "snd (createProjectInvitation be db projectId invitedUserId invitedBy (Some role)) =
           db\<lparr> project_invitations := project_invitations db @
                  [\<lparr> i_id = next_uuid db, i_project_id = projectId,
                     i_invited_user_id = invitedUserId, i_invited_by = invitedBy,
                     i_role = role, i_status = pending \<rparr>],
               next_uuid := Suc (next_uuid db) \<rparr>"
proof -
  have "[i \<leftarrow> project_invitations db. i_project_id i = projectId \<and>
            i_invited_user_id i = invitedUserId \<and> i_status i = pending] =
        [i \<leftarrow> [i \<leftarrow> project_invitations db. i_project_id i = projectId \<and>
            i_invited_user_id i = invitedUserId]. i_status i = pending]"
    by (simp add: conj_commute conj_left_commute)
  then have "[i \<leftarrow> project_invitations db. i_project_id i = projectId \<and>
            i_invited_user_id i = invitedUserId \<and> i_status i = pending] = []"
    using assms(5) by simp
  with assms show ?thesis
    by (auto simp add: createProjectInvitation_def existing_member_def existing_invitation_def
        invitation_insert_ok_def single_def Let_def)
qed

text \<open>
  C3. An invite is to fail for a member and for an invitee with a pending invitation, and
  otherwise to create a pending invitation. The check in \<open>createProjectInvitation\<close>
  looks for a pending invitation only, but the table is unique on the pair of project and
  invitee whatever the status. User 11 declined the invitation to the demo project: the
  user is no member and has no pending invitation, both checks pass, and the insert is
  rejected, so no invitation is created.
\<close>

theorem invite_after_decline_is_rejected:
  "existing_member db_declined 1 11 = None \<and>
   existing_invitation db_declined 1 11 = None \<and>
   map i_status (project_invitations db_declined) = [declined] \<and>
   createProjectInvitation served db_declined 1 11 10 (Some Member) =
     (Inl PostgrestError, db_declined)"
  by (simp add: db_declined_eval served_def createProjectInvitation_def existing_member_def
      existing_invitation_def invitation_insert_ok_def single_def)

subsection \<open>Declining and cancelling\<close>

text \<open>
  C8. Declining and cancelling leave the table of members as it was. Cancelling, when it
  is served, deletes the rows that have the identifier and are pending, and nothing else;
  when no pending row has the identifier, it changes nothing.
\<close>

theorem decline_cancel_frame:
  "project_members (snd (declineProjectInvitation be db invitationId)) = project_members db \<and>
   project_members (snd (cancelProjectInvitation be db invitationId)) = project_members db \<and>
   project_invitations (snd (cancelProjectInvitation be db invitationId)) =
     (if be 0 = Served
      then [i \<leftarrow> project_invitations db. \<not> (i_id i = invitationId \<and> i_status i = pending)]
      else project_invitations db) \<and>
   ([i \<leftarrow> project_invitations db. i_id i = invitationId \<and> i_status i = pending] = [] \<longrightarrow>
      snd (cancelProjectInvitation be db invitationId) = db)"
proof (intro conjI impI)
  show "project_members (snd (declineProjectInvitation be db invitationId)) = project_members db"
    by (simp add: declineProjectInvitation_def split: reply.split)
  show "project_members (snd (cancelProjectInvitation be db invitationId)) = project_members db"
    by (simp add: cancelProjectInvitation_def split: reply.split)
  show "project_invitations (snd (cancelProjectInvitation be db invitationId)) =
     (if be 0 = Served
      then [i \<leftarrow> project_invitations db. \<not> (i_id i = invitationId \<and> i_status i = pending)]
      else project_invitations db)"
    by (simp add: cancelProjectInvitation_def split: reply.split)
next
  assume "[i \<leftarrow> project_invitations db. i_id i = invitationId \<and> i_status i = pending] = []"
  then have "[i \<leftarrow> project_invitations db. \<not> (i_id i = invitationId \<and> i_status i = pending)] =
             project_invitations db"
    by (simp add: filter_empty_conv)
  then show "snd (cancelProjectInvitation be db invitationId) = db"
    by (simp add: cancelProjectInvitation_def split: reply.split)
qed

text \<open>
  The theorem at the sample states: the pending invitation is deleted, the declined one
  stays.
\<close>

theorem decline_cancel_frame_witness:
  "project_invitations (snd (cancelProjectInvitation served db_invited 20)) = [] \<and>
   project_members (snd (cancelProjectInvitation served db_invited 20)) =
     project_members db_invited \<and>
   project_members (snd (declineProjectInvitation served db_invited 20)) =
     project_members db_invited \<and>
   snd (cancelProjectInvitation served db_declined 20) = db_declined"
proof -
  have 1: "[i \<leftarrow> project_invitations db_declined. i_id i = 20 \<and> i_status i = pending] = []"
    by (simp add: db_declined_eval)
  from decline_cancel_frame [of served db_declined 20] 1
  have a: "snd (cancelProjectInvitation served db_declined 20) = db_declined"
    by blast
  from decline_cancel_frame [of served db_invited 20]
  have b: "project_invitations (snd (cancelProjectInvitation served db_invited 20)) =
             [i \<leftarrow> project_invitations db_invited. \<not> (i_id i = 20 \<and> i_status i = pending)]"
    "project_members (snd (cancelProjectInvitation served db_invited 20)) =
       project_members db_invited"
    "project_members (snd (declineProjectInvitation served db_invited 20)) =
       project_members db_invited"
    by (simp_all add: served_def)
  have c: "[i \<leftarrow> project_invitations db_invited. \<not> (i_id i = 20 \<and> i_status i = pending)] = []"
    by (simp add: db_invited_eval)
  show ?thesis using a b c by simp
qed

subsection \<open>The role of an invitation\<close>

lemma invite_roles:
  "list_all role_allowed (project_invitations db) \<Longrightarrow>
   list_all role_allowed
     (project_invitations
        (snd (createProjectInvitation be db projectId invitedUserId invitedBy role_arg)))"
  by (auto simp add: createProjectInvitation_def invitation_insert_ok_def role_allowed_def
      Let_def split: reply.splits option.splits)

lemma set_status_roles:
  "list_all role_allowed (set_status invitationId s rows) = list_all role_allowed rows"
  by (induction rows) (simp_all add: set_status_def role_allowed_def)

lemma accept_roles:
  "list_all role_allowed (project_invitations db) \<Longrightarrow>
   list_all role_allowed (project_invitations (snd (acceptProjectInvitation be db invitationId)))"
  by (auto simp add: acceptProjectInvitation_def insert_member_def set_status_roles Let_def
      split: reply.splits option.splits)

lemma decline_roles:
  "list_all role_allowed (project_invitations db) \<Longrightarrow>
   list_all role_allowed (project_invitations (snd (declineProjectInvitation be db invitationId)))"
  by (auto simp add: declineProjectInvitation_def set_status_roles split: reply.splits)

lemma cancel_roles:
  "list_all role_allowed (project_invitations db) \<Longrightarrow>
   list_all role_allowed (project_invitations (snd (cancelProjectInvitation be db invitationId)))"
  by (auto simp add: cancelProjectInvitation_def list_all_iff split: reply.splits)

text \<open>
  C9. In every state that the operations lead to, whatever their arguments and whatever
  the backend does, the role of every invitation is Member or Viewer and never Owner:
  \<open>createProjectInvitation\<close> takes any role, and the table's check rejects the insert
  of any other.
\<close>

theorem invitation_role_never_owner:
  "reachable db \<Longrightarrow>
   list_all (\<lambda>i. (i_role i = Member \<or> i_role i = Viewer) \<and> i_role i \<noteq> Owner)
     (project_invitations db)"
proof -
  assume "reachable db"
  then have "list_all role_allowed (project_invitations db)"
    by (induction rule: reachable.induct)
      (simp_all add: invite_roles accept_roles decline_roles cancel_roles
        other_operations_keep_invitations)
  then show ?thesis
    by (auto simp add: list_all_iff role_allowed_def)
qed

text \<open>
  The theorem at the demo project after an invitation as a viewer; an invitation as an
  owner creates no row.
\<close>

theorem invitation_role_never_owner_witness:
  "reachable db_invited \<and>
   map i_role (project_invitations db_invited) = [Viewer] \<and>
   list_all (\<lambda>i. (i_role i = Member \<or> i_role i = Viewer) \<and> i_role i \<noteq> Owner)
     (project_invitations db_invited) \<and>
   reachable (snd (createProjectInvitation served demo_db 1 11 10 (Some Owner))) \<and>
   project_invitations (snd (createProjectInvitation served demo_db 1 11 10 (Some Owner))) = []"
proof -
  have r0: "reachable demo_db"
    by (rule reachable.created) (simp add: demo_db_def)
  have r1: "reachable db_invited"
    unfolding db_invited_def by (rule reachable.invite [OF r0])
  have r2: "reachable (snd (createProjectInvitation served demo_db 1 11 10 (Some Owner)))"
    by (rule reachable.invite [OF r0])
  have e: "project_invitations (snd (createProjectInvitation served demo_db 1 11 10 (Some Owner)))
             = []"
    by (simp add: demo_db_def served_def invitation_defs)
  have v: "map i_role (project_invitations db_invited) = [Viewer]"
    by (simp add: db_invited_eval)
  from invitation_role_never_owner [OF r1] r1 r2 e v show ?thesis by simp
qed

section \<open>Task suggestions\<close>

lemma those_length: "those xs = Some ys \<Longrightarrow> length ys = length xs"
  by (induction xs arbitrary: ys) (auto split: option.splits)

lemma those_map_Some:
  "(\<And>x. x \<in> set xs \<Longrightarrow> f x \<noteq> None) \<Longrightarrow> \<exists>ys. those (map f xs) = Some ys"
  by (induction xs) (auto split: option.splits)

lemma those_None: "None \<in> set xs \<Longrightarrow> those xs = None"
  by (induction xs) (auto split: option.splits)

lemma attempt_once_length:
  "attempt_once (Parsed (Array rawTasks)) clock iso_date = Some ts \<Longrightarrow>
   length ts = length rawTasks"
  by (auto simp add: attempt_once_def dest: those_length split: if_splits)

lemma attempt_once_well_formed:
  assumes "rawTasks \<noteq> []" and "ItemNull \<notin> set rawTasks"
  shows "\<exists>ts. attempt_once (Parsed (Array rawTasks)) clock iso_date = Some ts \<and>
              length ts = length rawTasks"
proof -
  have "\<exists>ts. those (map (\<lambda>(t, index). transform clock iso_date t index)
                 (zip rawTasks [0 ..< length rawTasks])) = Some ts"
  proof (rule those_map_Some)
    fix x assume "x \<in> set (zip rawTasks [0 ..< length rawTasks])"
    then have "fst x \<in> set rawTasks"
      by (metis prod.collapse set_zip_leftD)
    with assms(2) have "fst x \<noteq> ItemNull" by auto
    then show "(case x of (t, index) \<Rightarrow> transform clock iso_date t index) \<noteq> None"
      by (cases x; cases "fst x") (simp_all add: transform_def)
  qed
  then obtain ts where "attempt_once (Parsed (Array rawTasks)) clock iso_date = Some ts"
    using assms(1) by (auto simp add: attempt_once_def)
  then show ?thesis using attempt_once_length by blast
qed

lemma attempt_once_fails_iff:
  "attempt_once r clock iso_date = None \<longleftrightarrow>
     (\<forall>rawTasks. r = Parsed (Array rawTasks) \<longrightarrow> rawTasks = [] \<or> ItemNull \<in> set rawTasks)"
proof (cases r)
  case (Parsed v)
  show ?thesis
  proof (cases v)
    case NotArray
    with Parsed show ?thesis by (simp add: attempt_once_def)
  next
    case (Array rawTasks)
    show ?thesis
    proof (cases "rawTasks = [] \<or> ItemNull \<in> set rawTasks")
      case True
      then have "attempt_once (Parsed (Array rawTasks)) clock iso_date = None"
      proof
        assume "rawTasks = []" then show ?thesis by (simp add: attempt_once_def)
      next
        assume "ItemNull \<in> set rawTasks"
        then obtain n where "n < length rawTasks" "rawTasks ! n = ItemNull"
          by (auto simp add: in_set_conv_nth)
        then have "(ItemNull, n) \<in> set (zip rawTasks [0 ..< length rawTasks])"
          unfolding set_zip by (intro CollectI exI [of _ n]) simp
        then have "None \<in> set (map (\<lambda>(t, index). transform clock iso_date t index)
                                (zip rawTasks [0 ..< length rawTasks]))"
          by (force simp add: transform_def)
        then show ?thesis by (simp add: attempt_once_def those_None)
      qed
      with True Parsed Array show ?thesis by simp
    next
      case False
      with attempt_once_well_formed [of rawTasks clock iso_date] Parsed Array
      show ?thesis by auto
    qed
  qed
qed (simp_all add: attempt_once_def)

lemma attempt_fails_any_clock:
  "attempt_once r (advance k clock) iso_date = None \<longleftrightarrow> attempt_once r clock iso_date = None"
  by (simp add: attempt_once_fails_iff)

lemma advance_advance: "advance b (advance a clock) = advance (a + b) clock"
  by (simp add: advance_def ac_simps)

lemma advance_nothing: "advance 0 clock = clock"
  by (simp add: advance_def)

lemma retry_loop_third:
  "retry_loop service clock iso_date desc 2 =
     (case attempt_once (service 2) clock iso_date of
        Some ts \<Rightarrow> (ts, [Request])
      | None \<Rightarrow>
          (simulateAiResponse (advance (readings (service 2)) clock) iso_date desc, [Request]))"
  by (subst retry_loop.simps) (simp add: MAX_RETRIES_def)

lemma retry_loop_second:
  "retry_loop service clock iso_date desc 1 =
     (case attempt_once (service 1) clock iso_date of
        Some ts \<Rightarrow> (ts, [Request])
      | None \<Rightarrow>
          (case retry_loop service (advance (readings (service 1)) clock) iso_date desc 2 of
             (ts, trace) \<Rightarrow> (ts, Request # Wait 4000 # trace)))"
  by (subst retry_loop.simps)
    (simp add: MAX_RETRIES_def numeral_2_eq_2 [symmetric] split: option.split)

lemma retry_loop_first:
  "retry_loop service clock iso_date desc 0 =
     (case attempt_once (service 0) clock iso_date of
        Some ts \<Rightarrow> (ts, [Request])
      | None \<Rightarrow>
          (case retry_loop service (advance (readings (service 0)) clock) iso_date desc 1 of
             (ts, trace) \<Rightarrow> (ts, Request # Wait 2000 # trace)))"
  by (subst retry_loop.simps) (simp add: MAX_RETRIES_def split: option.split)

lemma retry_loop_unrolled:
  "retry_loop service clock iso_date desc 0 =
     (case attempt_once (service 0) clock iso_date of
        Some ts \<Rightarrow> (ts, [Request])
      | None \<Rightarrow>
          (case attempt_once (service 1) (advance (readings (service 0)) clock) iso_date of
             Some ts \<Rightarrow> (ts, [Request, Wait 2000, Request])
           | None \<Rightarrow>
               (case attempt_once (service 2)
                       (advance (readings (service 0) + readings (service 1)) clock)
                       iso_date of
                  Some ts \<Rightarrow> (ts, [Request, Wait 2000, Request, Wait 4000, Request])
                | None \<Rightarrow>
                    (simulateAiResponse
                       (advance (readings (service 0) + readings (service 1) +
                                 readings (service 2)) clock) iso_date desc,
                     [Request, Wait 2000, Request, Wait 4000, Request]))))"
  unfolding retry_loop_first retry_loop_second retry_loop_third
  by (simp add: advance_advance split: option.split)

subsection \<open>Attempts and delays\<close>

text \<open>
  C5, as stated, fails on the delays: \<open>attempt\<close> is incremented before the delay
  \<open>1000 * Math.pow(2, attempt)\<close> is computed, so with a service that is down the waits
  are 2000 and 4000 milliseconds, not 1000 and 2000.
\<close>

theorem generateProjectTasks_waits_when_down:
  "snd (generateProjectTasks (Some ''key'') down_service sample_clock sample_date
          ''A shop'' ''General'') =
     [Request, Wait 2000, Request, Wait 4000, Request]"
  by (simp add: generateProjectTasks_def retry_loop_unrolled attempt_once_def down_service_def)

text \<open>
  C5, amended. At most three calls are attempted: none without a credential, one when the
  first attempt succeeds, two with a wait of 2 seconds between them when the second
  succeeds, and otherwise three, with a wait of 2 seconds before the second and of 4
  seconds before the third.
\<close>

theorem generateProjectTasks_attempts:
  "snd (generateProjectTasks apiKey service clock iso_date projectDescription projectType) =
     (if apiKey = None \<or> apiKey = Some [] then []
      else if attempt_once (service 0) clock iso_date \<noteq> None then [Request]
      else if attempt_once (service 1) clock iso_date \<noteq> None
        then [Request, Wait 2000, Request]
      else [Request, Wait 2000, Request, Wait 4000, Request])"
proof -
  have second: "attempt_once (service 1) (advance (readings (service 0)) clock) iso_date = None
      \<longleftrightarrow> attempt_once (service 1) clock iso_date = None"
    by (rule attempt_fails_any_clock)
  show ?thesis
    using second
    by (auto simp add: generateProjectTasks_def retry_loop_unrolled split: option.split)
qed

text \<open>
  The theorem with a service that fails twice and then answers, and without a credential.
\<close>

theorem generateProjectTasks_attempts_witness:
  "snd (generateProjectTasks (Some ''key'') late_service sample_clock sample_date
          ''A shop'' ''General'') = [Request, Wait 2000, Request, Wait 4000, Request] \<and>
   snd (generateProjectTasks None late_service sample_clock sample_date
          ''A shop'' ''General'') = []"
  using generateProjectTasks_attempts [of "Some ''key''" late_service sample_clock sample_date
      "''A shop''" "''General''"]
    generateProjectTasks_attempts [of None late_service sample_clock sample_date "''A shop''"
      "''General''"]
  by (simp add: late_service_def attempt_once_def)

subsection \<open>The number of suggestions\<close>

text \<open>
  C4, as stated, fails on the number of tasks: the answer is checked to be an array that is
  not empty, and nothing looks at its size. A service that answers the first call with an
  array of one task gets one task back.
\<close>

theorem generateProjectTasks_one_task:
  "snd (generateProjectTasks (Some ''key'') short_service sample_clock sample_date
          ''A shop'' ''General'') = [Request] \<and>
   length (fst (generateProjectTasks (Some ''key'') short_service sample_clock sample_date
                  ''A shop'' ''General'')) = 1"
  by (simp add: generateProjectTasks_def retry_loop_unrolled attempt_once_def short_service_def
      transform_def)

text \<open>
  C4, amended. With a credential, when one of the three attempts is answered with an array
  that is not empty and holds no \<open>null\<close>, and the attempts before it failed, the result
  has one task for each element of that array. Without a credential, or when three attempts
  in a row fail, the result is the fallback of \<open>simulateAiResponse\<close>, which has five
  tasks; the date in it is read from the clock after the readings of the failed attempts.
\<close>

theorem generateProjectTasks_result:
  "(apiKey \<noteq> None \<and> apiKey \<noteq> Some [] \<and> k < 3 \<and>
    (\<forall>j<k. attempt_once (service j) clock iso_date = None) \<and>
    service k = Parsed (Array rawTasks) \<and> rawTasks \<noteq> [] \<and> ItemNull \<notin> set rawTasks \<longrightarrow>
      length (fst (generateProjectTasks apiKey service clock iso_date projectDescription
                     projectType)) = length rawTasks) \<and>
   (apiKey = None \<or> apiKey = Some [] \<longrightarrow>
      fst (generateProjectTasks apiKey service clock iso_date projectDescription projectType) =
        simulateAiResponse clock iso_date projectDescription) \<and>
   (apiKey \<noteq> None \<and> apiKey \<noteq> Some [] \<and>
    attempt_once (service 0) clock iso_date = None \<and>
    attempt_once (service 1) clock iso_date = None \<and>
    attempt_once (service 2) clock iso_date = None \<longrightarrow>
      fst (generateProjectTasks apiKey service clock iso_date projectDescription projectType) =
        simulateAiResponse
          (advance (readings (service 0) + readings (service 1) + readings (service 2)) clock)
          iso_date projectDescription) \<and>
   (apiKey = None \<or> apiKey = Some [] \<or>
    attempt_once (service 0) clock iso_date = None \<and>
    attempt_once (service 1) clock iso_date = None \<and>
    attempt_once (service 2) clock iso_date = None \<longrightarrow>
      length (fst (generateProjectTasks apiKey service clock iso_date projectDescription
                     projectType)) = 5)"
proof -
  have any: "attempt_once r (advance n clock) iso_date = None \<longleftrightarrow>
             attempt_once r clock iso_date = None" for r n
    by (rule attempt_fails_any_clock)
  have five: "length (simulateAiResponse c iso_date projectDescription) = 5" for c
    by (simp add: simulateAiResponse_def)
  have fallback: "fst (generateProjectTasks apiKey service clock iso_date projectDescription
                         projectType) =
        simulateAiResponse
          (advance (readings (service 0) + readings (service 1) + readings (service 2)) clock)
          iso_date projectDescription"
    if "apiKey \<noteq> None" "apiKey \<noteq> Some []"
      "attempt_once (service 0) clock iso_date = None"
      "attempt_once (service 1) clock iso_date = None"
      "attempt_once (service 2) clock iso_date = None"
  proof -
    have second: "attempt_once (service 1) (advance (readings (service 0)) clock) iso_date =
                    None"
      using that(4) by (simp add: any)
    have third: "attempt_once (service 2)
                   (advance (readings (service 0) + readings (service 1)) clock) iso_date =
                    None"
      using that(5) by (simp add: any)
    show ?thesis
      using that(1,2,3) second third
      by (auto simp add: generateProjectTasks_def retry_loop_unrolled)
  qed
  have no_key: "fst (generateProjectTasks apiKey service clock iso_date projectDescription
                       projectType) = simulateAiResponse clock iso_date projectDescription"
    if "apiKey = None \<or> apiKey = Some []"
    using that by (auto simp add: generateProjectTasks_def)
  have count: "length (fst (generateProjectTasks apiKey service clock iso_date
                              projectDescription projectType)) = length rawTasks"
    if a: "apiKey \<noteq> None \<and> apiKey \<noteq> Some [] \<and> k < 3 \<and>
      (\<forall>j<k. attempt_once (service j) clock iso_date = None) \<and>
      service k = Parsed (Array rawTasks) \<and> rawTasks \<noteq> [] \<and> ItemNull \<notin> set rawTasks"
  proof -
    have ok: "\<exists>ts. attempt_once (service k) c iso_date = Some ts \<and>
                   length ts = length rawTasks" for c
      using a attempt_once_well_formed [of rawTasks c iso_date] by auto
    from a have "k = 0 \<or> k = 1 \<or> k = 2" by auto
    then show ?thesis
    proof (elim disjE)
      assume "k = 0"
      with ok [of clock] show ?thesis
        using a by (auto simp add: generateProjectTasks_def retry_loop_unrolled)
    next
      assume "k = 1"
      with ok [of "advance (readings (service 0)) clock"] show ?thesis
        using a by (auto simp add: generateProjectTasks_def retry_loop_unrolled)
    next
      assume k: "k = 2"
      have first: "attempt_once (service 0) clock iso_date = None"
        using a k by simp
      have "attempt_once (service 1) clock iso_date = None"
        using a k by simp
      then have second:
        "attempt_once (service 1) (advance (readings (service 0)) clock) iso_date = None"
        by (simp add: any)
      from ok [of "advance (readings (service 0) + readings (service 1)) clock"] k
      obtain ts where "attempt_once (service 2)
            (advance (readings (service 0) + readings (service 1)) clock) iso_date = Some ts"
        "length ts = length rawTasks"
        by auto
      with first second show ?thesis
        using a by (auto simp add: generateProjectTasks_def retry_loop_unrolled)
    qed
  qed
  show ?thesis
  proof (intro conjI impI)
    assume "apiKey \<noteq> None \<and> apiKey \<noteq> Some [] \<and> k < 3 \<and>
      (\<forall>j<k. attempt_once (service j) clock iso_date = None) \<and>
      service k = Parsed (Array rawTasks) \<and> rawTasks \<noteq> [] \<and> ItemNull \<notin> set rawTasks"
    then show "length (fst (generateProjectTasks apiKey service clock iso_date
                              projectDescription projectType)) = length rawTasks"
      by (rule count)
  next
    assume "apiKey = None \<or> apiKey = Some []"
    then show "fst (generateProjectTasks apiKey service clock iso_date projectDescription
                      projectType) = simulateAiResponse clock iso_date projectDescription"
      by (rule no_key)
  next
    assume "apiKey \<noteq> None \<and> apiKey \<noteq> Some [] \<and>
      attempt_once (service 0) clock iso_date = None \<and>
      attempt_once (service 1) clock iso_date = None \<and>
      attempt_once (service 2) clock iso_date = None"
    then show "fst (generateProjectTasks apiKey service clock iso_date projectDescription
                      projectType) =
        simulateAiResponse
          (advance (readings (service 0) + readings (service 1) + readings (service 2)) clock)
          iso_date projectDescription"
      by (elim conjE, intro fallback) assumption+
  next
    assume b: "apiKey = None \<or> apiKey = Some [] \<or>
      attempt_once (service 0) clock iso_date = None \<and>
      attempt_once (service 1) clock iso_date = None \<and>
      attempt_once (service 2) clock iso_date = None"
    show "length (fst (generateProjectTasks apiKey service clock iso_date projectDescription
                         projectType)) = 5"
    proof (cases "apiKey = None \<or> apiKey = Some []")
      case True
      then show ?thesis by (simp add: no_key five)
    next
      case False
      with b have "fst (generateProjectTasks apiKey service clock iso_date projectDescription
                          projectType) =
        simulateAiResponse
          (advance (readings (service 0) + readings (service 1) + readings (service 2)) clock)
          iso_date projectDescription"
        by (intro fallback) auto
      then show ?thesis by (simp add: five)
    qed
  qed
qed

text \<open>
  The theorem with a service that fails twice and then answers with six tasks, with a
  service that is down, with one whose every answer holds a \<open>null\<close> after a task (each
  attempt reads the clock twice, and the fallback reads it after these six readings), and
  without a credential.
\<close>

theorem generateProjectTasks_result_witness:
  "length (fst (generateProjectTasks (Some ''key'') late_service sample_clock sample_date
                  ''A shop'' ''General'')) = 6 \<and>
   fst (generateProjectTasks (Some ''key'') down_service sample_clock sample_date
          ''A shop'' ''General'') = simulateAiResponse sample_clock sample_date ''A shop'' \<and>
   fst (generateProjectTasks (Some ''key'') torn_service sample_clock sample_date
          ''A shop'' ''General'') =
     simulateAiResponse (advance 6 sample_clock) sample_date ''A shop'' \<and>
   length (fst (generateProjectTasks (Some ''key'') torn_service sample_clock sample_date
                  ''A shop'' ''General'')) = 5 \<and>
   fst (generateProjectTasks None late_service sample_clock sample_date
          ''A shop'' ''General'') = simulateAiResponse sample_clock sample_date ''A shop''"
proof -
  let ?six = "replicate 6 (ItemObject (Some ''Task'') (Some ''Low''))"
  have 1: "\<forall>j<2. attempt_once (late_service j) sample_clock sample_date = None"
    by (simp add: late_service_def attempt_once_def)
  have 2: "late_service 2 = Parsed (Array ?six)" "?six \<noteq> []" "ItemNull \<notin> set ?six"
    by (simp_all add: late_service_def)
  have 3: "attempt_once (down_service 0) sample_clock sample_date = None"
    "attempt_once (down_service 1) sample_clock sample_date = None"
    "attempt_once (down_service 2) sample_clock sample_date = None"
    "readings (down_service 0) + readings (down_service 1) + readings (down_service 2) = 0"
    by (simp_all add: down_service_def attempt_once_def readings_def)
  have 4: "attempt_once (torn_service 0) sample_clock sample_date = None"
    "attempt_once (torn_service 1) sample_clock sample_date = None"
    "attempt_once (torn_service 2) sample_clock sample_date = None"
    "readings (torn_service 0) + readings (torn_service 1) + readings (torn_service 2) = 6"
    by (simp_all add: torn_service_def attempt_once_def transform_def readings_def)
  from generateProjectTasks_result [where apiKey = "Some ''key''" and service = late_service
      and clock = sample_clock and iso_date = sample_date and k = 2 and rawTasks = ?six
      and projectDescription = "''A shop''" and projectType = "''General''"] 1 2
  have a: "length (fst (generateProjectTasks (Some ''key'') late_service sample_clock
                          sample_date ''A shop'' ''General'')) = length ?six"
    by simp
  from generateProjectTasks_result [where apiKey = "Some ''key''" and service = down_service
      and clock = sample_clock and iso_date = sample_date and k = 0 and rawTasks = "[]"
      and projectDescription = "''A shop''" and projectType = "''General''"] 3
  have b: "fst (generateProjectTasks (Some ''key'') down_service sample_clock sample_date
             ''A shop'' ''General'') = simulateAiResponse sample_clock sample_date ''A shop''"
    by (simp add: advance_nothing)
  from generateProjectTasks_result [where apiKey = "Some ''key''" and service = torn_service
      and clock = sample_clock and iso_date = sample_date and k = 0 and rawTasks = "[]"
      and projectDescription = "''A shop''" and projectType = "''General''"] 4
  have c: "fst (generateProjectTasks (Some ''key'') torn_service sample_clock sample_date
             ''A shop'' ''General'') =
             simulateAiResponse (advance 6 sample_clock) sample_date ''A shop''"
    "length (fst (generateProjectTasks (Some ''key'') torn_service sample_clock sample_date
                    ''A shop'' ''General'')) = 5"
    by (simp_all add: simulateAiResponse_def)
  from generateProjectTasks_result [where apiKey = None and service = late_service
      and clock = sample_clock and iso_date = sample_date and k = 0 and rawTasks = "[]"
      and projectDescription = "''A shop''" and projectType = "''General''"]
  have d: "fst (generateProjectTasks None late_service sample_clock sample_date
             ''A shop'' ''General'') = simulateAiResponse sample_clock sample_date ''A shop''"
    by simp
  show ?thesis using a b c d by simp
qed

end
